theory Spec2Isabelle
  imports Complex_Main "HOL-Library.Word"
begin

section \<open>Wire format of a file chunk\<close>

text \<open>
  Bytes are modelled as \<^typ>\<open>char\<close> and byte sequences as \<^typ>\<open>string\<close>.
  \<^verbatim>\<open>FileChunkHeader\<close> is the struct of \<^verbatim>\<open>epoll_server.c\<close>, \<^verbatim>\<open>epoll_client.c\<close> and
  \<^verbatim>\<open>commands.c\<close>: four \<^verbatim>\<open>uint32_t\<close> fields and a 64 byte \<^verbatim>\<open>filename\<close> array, 80 bytes in all.
  The record holds the fields in host order; \<open>decode_header\<close> is the \<^verbatim>\<open>memcpy\<close> of 80
  received bytes into the struct followed by \<^verbatim>\<open>ntohl\<close> of the integer fields, and
  \<open>encode_header\<close> is \<^verbatim>\<open>htonl\<close> of the fields followed by sending the struct.
\<close>

record FileChunkHeader =
  chunk_id :: "32 word"
  chunk_size :: "32 word"
  total_chunks :: "32 word"
  type :: "32 word"
  filename :: string

abbreviation HEADER_SIZE :: nat where
  "HEADER_SIZE \<equiv> 80"

abbreviation CHUNK_SIZE :: nat where
  "CHUNK_SIZE \<equiv> 512"

abbreviation FILENAME_MAX_LEN :: nat where
  "FILENAME_MAX_LEN \<equiv> 64"

abbreviation NUL :: char where
  "NUL \<equiv> CHR 0x00"

text \<open>\<^verbatim>\<open>ntohl\<close> of four bytes as they arrived: the big-endian value.\<close>

fun be32 :: "string \<Rightarrow> 32 word" where
  "be32 (a # b # c # d # _) =
     word_of_nat (of_char a * 16777216 + of_char b * 65536 + of_char c * 256 + of_char d)"
| "be32 _ = 0"

text \<open>The four bytes that leave the host for \<^verbatim>\<open>htonl v\<close>.\<close>

definition htonl :: "32 word \<Rightarrow> string" where
  "htonl v = [char_of (unat v div 16777216), char_of (unat v div 65536),
              char_of (unat v div 256), char_of (unat v)]"

definition decode_header :: "string \<Rightarrow> FileChunkHeader" where
  "decode_header bs =
     \<lparr>chunk_id = be32 bs, chunk_size = be32 (drop 4 bs), total_chunks = be32 (drop 8 bs),
      type = be32 (drop 12 bs), filename = take FILENAME_MAX_LEN (drop 16 bs)\<rparr>"

definition encode_header :: "FileChunkHeader \<Rightarrow> string" where
  "encode_header h =
     htonl (chunk_id h) @ htonl (chunk_size h) @ htonl (total_chunks h) @ htonl (type h)
       @ filename h"

text \<open>
  A \<^verbatim>\<open>char\<close> array read as a C string (\<^verbatim>\<open>%s\<close>, \<^verbatim>\<open>strncpy\<close> source): the bytes before the first
  NUL. An array without a NUL makes the C code read past its end, which is \<open>None\<close> here.
\<close>

definition c_str :: "string \<Rightarrow> string option" where
  "c_str field =
     (if NUL \<in> set field then Some (takeWhile (\<lambda>c. c \<noteq> NUL) field) else None)"

text \<open>
  \<^verbatim>\<open>strncpy(dst, src, n)\<close> for a C string \<open>src\<close>: exactly \<open>n\<close> bytes are written, the string
  cut to \<open>n\<close> bytes and padded with NUL.
\<close>

definition strncpy :: "string \<Rightarrow> nat \<Rightarrow> string" where
  "strncpy src n =
     (let s = take n (takeWhile (\<lambda>c. c \<noteq> NUL) src) in s @ replicate (n - length s) NUL)"

section \<open>The environment: files and the socket\<close>

text \<open>
  What the code reaches through libc. \<open>files\<close> maps a path to the bytes that have reached
  the file; \<open>can_open\<close> says whether \<^verbatim>\<open>fopen(path, "wb")\<close> succeeds; \<open>space\<close> is the number of
  bytes the disk still takes; \<open>open_files\<close> lists the streams that are open (a stream is
  named by its path). The code never calls \<^verbatim>\<open>setvbuf\<close>, so a stream on a file is fully
  buffered: \<open>buffered\<close> gives the bytes written to a stream that are still in its buffer
  (none for a stream that is not open), and \<open>bufsiz\<close> is the size of that buffer, which the
  C library chooses (4096 bytes on a file system with blocks of that size). \<open>outbox\<close>
  is what was handed to \<^verbatim>\<open>send\<close> on the connection, oldest first; \<open>console\<close> keeps the
  \<^verbatim>\<open>"Received chunk %d/%d"\<close> lines of the server as pairs; \<open>collaborator\<close> gives the lines
  that the directory, delete, rename and health handlers of \<^verbatim>\<open>commands.c\<close> send for a command.
\<close>

record world =
  files :: "string \<rightharpoonup> string"
  can_open :: "string \<Rightarrow> bool"
  space :: nat
  open_files :: "string list"
  buffered :: "string \<Rightarrow> string"
  bufsiz :: nat
  outbox :: "string list"
  console :: "(int \<times> int) list"
  collaborator :: "string \<Rightarrow> string list"

definition fopen_wb :: "world \<Rightarrow> string \<Rightarrow> string option \<times> world" where
  "fopen_wb w path =
     (if can_open w path
      then (Some path, w\<lparr>files := (files w)(path \<mapsto> []), open_files := path # open_files w\<rparr>)
      else (None, w))"

text \<open>
  The \<^verbatim>\<open>write\<close> calls behind a stream: the bytes go to the file as far as the disk takes
  them. The result is the number of bytes written.
\<close>

definition write_out :: "world \<Rightarrow> string \<Rightarrow> string \<Rightarrow> nat \<times> world" where
  "write_out w f data =
     (let n = min (length data) (space w);
          old = (case files w f of None \<Rightarrow> [] | Some bs \<Rightarrow> bs)
      in (n, w\<lparr>files := (files w)(f \<mapsto> old @ take n data), space := space w - n\<rparr>))"

text \<open>
  \<^verbatim>\<open>fflush(f)\<close>: what is in the buffer is written out and the buffer is empty afterwards,
  also when the disk did not take all of it. The code never looks at the result.
\<close>

definition fflush :: "world \<Rightarrow> string \<Rightarrow> world" where
  "fflush w f =
     (if buffered w f = [] then w
      else (let w1 = snd (write_out w f (buffered w f))
            in w1\<lparr>buffered := (buffered w1)(f := [])\<rparr>))"

text \<open>
  \<^verbatim>\<open>fwrite(data, 1, n, f)\<close> on a fully buffered stream, as the C library does it. Data that
  fits the room left in the buffer is copied there and the full count is returned: a full
  disk does not show. Otherwise the buffer is filled up and written out; if the disk does
  not take it, the result is the number of bytes that went into the buffer. If it does,
  the whole blocks of what is left are written straight to the file and the remainder
  stays in the buffer.
\<close>

definition fwrite :: "world \<Rightarrow> string \<Rightarrow> string \<Rightarrow> nat \<times> world" where
  "fwrite w f data =
     (let pending = buffered w f;
          room = bufsiz w - length pending
      in if length data \<le> room
         then (length data, w\<lparr>buffered := (buffered w)(f := pending @ data)\<rparr>)
         else
           (let full = pending @ take room data;
                rest = drop room data;
                w1 = fflush (w\<lparr>buffered := (buffered w)(f := full)\<rparr>) f
            in if space w < length full then (room, w1)
               else
                 (let keep = (if bufsiz w \<ge> 128 then length rest mod bufsiz w else 0);
                      direct = take (length rest - keep) rest;
                      wr = write_out w1 f direct
                  in if fst wr < length direct then (room + fst wr, snd wr)
                     else (length data,
                           (snd wr)\<lparr>buffered :=
                                      (buffered (snd wr))(f := drop (length direct) rest)\<rparr>))))"

text \<open>\<^verbatim>\<open>fclose(f)\<close> writes the buffer out and closes the stream.\<close>

definition fclose :: "world \<Rightarrow> string \<Rightarrow> world" where
  "fclose w f = (let w1 = fflush w f in w1\<lparr>open_files := remove1 f (open_files w1)\<rparr>)"

text \<open>\<^verbatim>\<open>fflush(fp)\<close> for a pointer: \<^verbatim>\<open>fflush(NULL)\<close> flushes every open stream.\<close>

definition fflush_ptr :: "world \<Rightarrow> string option \<Rightarrow> world" where
  "fflush_ptr w fp =
     (case fp of
        Some f \<Rightarrow> fflush w f
      | None \<Rightarrow> fold (\<lambda>f w'. fflush w' f) (open_files w) w)"

definition send :: "world \<Rightarrow> string \<Rightarrow> world" where
  "send w msg = w\<lparr>outbox := outbox w @ [msg]\<rparr>"

text \<open>What \<^verbatim>\<open>recv\<close> returned: data (at least one byte), 0, or -1 with \<^verbatim>\<open>errno\<close>.\<close>

datatype recv_result = Data string | PeerClosed | WouldBlock | RecvError

text \<open>
  A fault is a call the C code makes with a negative length converted to \<^verbatim>\<open>size_t\<close>, or a
  string read that runs past its array: behaviour the C standard leaves undefined.
\<close>

datatype fault = OutOfBounds

text \<open>One pass of a receive loop either goes on with the bytes left, or returns.\<close>

datatype 'c outcome = Continue 'c string world | Return int 'c world | Fault

section \<open>Server: \<^verbatim>\<open>epoll_server.c\<close>\<close>

text \<open>
  \<^verbatim>\<open>client_info_t\<close>. \<open>buffer\<close> holds the \<^verbatim>\<open>buffer_len\<close> bytes in use of \<^verbatim>\<open>buffer[1024]\<close>, and
  \<open>recv_buffer\<close> the \<^verbatim>\<open>bytes_in_buffer\<close> bytes in use of \<^verbatim>\<open>recv_buffer\<close>; \<open>upload_file\<close> is the
  \<^verbatim>\<open>FILE *\<close>, \<open>None\<close> for \<^verbatim>\<open>NULL\<close>. \<open>current_header\<close> is kept decoded (the code applies
  \<^verbatim>\<open>ntohl\<close> at each use). The peer address is only printed and is left out.
\<close>

record client_info_t =
  socket_fd :: int
  buffer :: string
  state :: int
  upload_file :: "string option"
  upload_filename :: string
  expected_chunks :: int
  received_chunks :: int
  recv_buffer :: string
  header_complete :: bool
  current_header :: FileChunkHeader
  payload_remaining :: int

definition empty_header :: FileChunkHeader where
  "empty_header =
     \<lparr>chunk_id = 0, chunk_size = 0, total_chunks = 0, type = 0,
      filename = replicate FILENAME_MAX_LEN NUL\<rparr>"

text \<open>The fields \<^verbatim>\<open>add_client\<close> sets for a new connection.\<close>

definition add_client :: "int \<Rightarrow> client_info_t" where
  "add_client fd =
     \<lparr>socket_fd = fd, buffer = [], state = 0, upload_file = None, upload_filename = [],
      expected_chunks = 0, received_chunks = 0, recv_buffer = [], header_complete = False,
      current_header = empty_header, payload_remaining = 0\<rparr>"

text \<open>
  The end of a transfer in both receive loops: close the file, send the success line, reset
  the transfer fields (lines 322-337 and 625-641).
\<close>

definition finish_upload :: "client_info_t \<Rightarrow> world \<Rightarrow> client_info_t \<times> world" where
  "finish_upload c w =
     (let w1 = (case upload_file c of Some f \<Rightarrow> fclose w f | None \<Rightarrow> w);
          w2 = send w1 ''SUCCESS: File uploaded\<newline>''
      in (c\<lparr>upload_file := None, state := 0, recv_buffer := [], header_complete := False,
             payload_remaining := 0, expected_chunks := 0, received_chunks := 0,
             upload_filename := []\<rparr>, w2))"

text \<open>
  \<^verbatim>\<open>handle_file_transfer\<close>, lines 545-592: a header is complete in \<open>recv_buffer\<close>.
  \<open>rest\<close> is what is left of the bytes read.
\<close>

definition hft_header_complete ::
  "client_info_t \<Rightarrow> string \<Rightarrow> world \<Rightarrow> client_info_t outcome" where
  "hft_header_complete c rest w =
     (let c1 = c\<lparr>current_header := decode_header (recv_buffer c), header_complete := True\<rparr>;
          h = current_header c1
      in if chunk_size h = 0 \<or> total_chunks h = 0 \<or> chunk_size h > 8192
            \<or> total_chunks h > 2000000
         then Return (- 1) (c1\<lparr>state := 0\<rparr>) (send w ''ERROR: Invalid file transfer header\<newline>'')
         else
           let c2 = c1\<lparr>payload_remaining := sint (chunk_size h)\<rparr>
           in if chunk_id h = 0
              then (case c_str (filename h) of
                      None \<Rightarrow> Fault
                    | Some name \<Rightarrow>
                       (case fopen_wb w (''saved/'' @ name) of
                          (None, w1) \<Rightarrow>
                             Return (- 1) (c2\<lparr>upload_file := None, state := 0\<rparr>)
                               (send w1 ''ERROR: Cannot create file\<newline>'')
                        | (Some f, w1) \<Rightarrow>
                             Continue
                               (c2\<lparr>upload_file := Some f, upload_filename := name,
                                   expected_chunks := sint (total_chunks h),
                                   received_chunks := 0, recv_buffer := []\<rparr>) rest w1))
              else Continue (c2\<lparr>recv_buffer := []\<rparr>) rest w)"

text \<open>Lines 613-646: a payload is complete.\<close>

definition hft_chunk_complete ::
  "client_info_t \<Rightarrow> string \<Rightarrow> world \<Rightarrow> client_info_t outcome" where
  "hft_chunk_complete c rest w =
     (let c1 = c\<lparr>received_chunks := received_chunks c + 1, header_complete := False,
                 recv_buffer := []\<rparr>;
          w1 = w\<lparr>console := console w @ [(received_chunks c1, expected_chunks c1)]\<rparr>
      in if received_chunks c1 \<ge> expected_chunks c1
         then (case finish_upload c1 w1 of (c2, w2) \<Rightarrow> Return 0 c2 w2)
         else Continue c1 rest w1)"

text \<open>
  One pass of the \<^verbatim>\<open>while (processed < bytes_read)\<close> loop. The loop of
  \<^verbatim>\<open>handle_file_transfer\<close> (lines 531-648) and the one inside \<^verbatim>\<open>handle_client_data\<close>
  (lines 265-341) copy header and payload bytes in the same way and differ in what they do
  when a header or a payload is complete: \<open>on_header\<close> and \<open>on_chunk\<close>. Payload bytes go to
  the upload file with \<^verbatim>\<open>fwrite\<close> followed by \<^verbatim>\<open>fflush\<close> (lines 306-307 and 602-603); the code
  looks at the result of neither.
\<close>

definition recv_step ::
  "(client_info_t \<Rightarrow> string \<Rightarrow> world \<Rightarrow> client_info_t outcome) \<Rightarrow>
   (client_info_t \<Rightarrow> string \<Rightarrow> world \<Rightarrow> client_info_t outcome) \<Rightarrow>
   client_info_t \<Rightarrow> string \<Rightarrow> world \<Rightarrow> client_info_t outcome" where
  "recv_step on_header on_chunk c bs w =
     (if \<not> header_complete c
      then
        (let header_needed = int HEADER_SIZE - int (length (recv_buffer c));
             to_copy = (if int (length bs) < header_needed then int (length bs)
                        else header_needed)
         in if to_copy < 0 then Fault
            else
              let c1 = c\<lparr>recv_buffer := recv_buffer c @ take (nat to_copy) bs\<rparr>;
                  rest = drop (nat to_copy) bs
              in if length (recv_buffer c1) \<ge> HEADER_SIZE
                 then on_header c1 rest w
                 else Continue c1 rest w)
      else
        (let to_copy = (if int (length bs) < payload_remaining c then int (length bs)
                        else payload_remaining c)
         in if to_copy < 0 then Fault
            else
              let w1 = (case upload_file c of
                          Some f \<Rightarrow> fflush (snd (fwrite w f (take (nat to_copy) bs))) f
                        | None \<Rightarrow> w);
                  c1 = c\<lparr>payload_remaining := payload_remaining c - to_copy\<rparr>;
                  rest = drop (nat to_copy) bs
              in if payload_remaining c1 = 0
                 then on_chunk c1 rest w1
                 else Continue c1 rest w1))"

definition hft_step :: "client_info_t \<Rightarrow> string \<Rightarrow> world \<Rightarrow> client_info_t outcome" where
  "hft_step = recv_step hft_header_complete hft_chunk_complete"

text \<open>
  The header and payload blocks of the loop inside \<^verbatim>\<open>handle_client_data\<close>: lines 276-299
  (no validation, a failed \<^verbatim>\<open>fopen\<close> is not reported) and lines 312-339 (no \<^verbatim>\<open>return\<close> when the
  transfer is complete).
\<close>

definition hcd_header_complete ::
  "client_info_t \<Rightarrow> string \<Rightarrow> world \<Rightarrow> client_info_t outcome" where
  "hcd_header_complete c rest w =
     (let h = decode_header (recv_buffer c);
          c1 = c\<lparr>current_header := h, header_complete := True,
                 payload_remaining := sint (chunk_size h), recv_buffer := []\<rparr>
      in if chunk_id h = 0
         then (case c_str (filename h) of
                 None \<Rightarrow> Fault
               | Some name \<Rightarrow>
                  (case fopen_wb w (''saved/'' @ name) of
                     (None, w1) \<Rightarrow> Continue (c1\<lparr>upload_file := None\<rparr>) rest w1
                   | (Some f, w1) \<Rightarrow>
                        Continue
                          (c1\<lparr>upload_file := Some f, upload_filename := name,
                              expected_chunks := sint (total_chunks h),
                              received_chunks := 0\<rparr>) rest w1))
         else Continue c1 rest w)"

definition hcd_chunk_complete ::
  "client_info_t \<Rightarrow> string \<Rightarrow> world \<Rightarrow> client_info_t outcome" where
  "hcd_chunk_complete c rest w =
     (let c1 = c\<lparr>received_chunks := received_chunks c + 1, header_complete := False,
                 recv_buffer := []\<rparr>;
          w1 = w\<lparr>console := console w @ [(received_chunks c1, expected_chunks c1)]\<rparr>
      in if received_chunks c1 \<ge> expected_chunks c1
         then (case finish_upload c1 w1 of (c2, w2) \<Rightarrow> Continue c2 rest w2)
         else Continue c1 rest w1)"

definition hcd_step :: "client_info_t \<Rightarrow> string \<Rightarrow> world \<Rightarrow> client_info_t outcome" where
  "hcd_step = recv_step hcd_header_complete hcd_chunk_complete"

text \<open>
  The measure of both receive loops: the bytes left, and whether the next pass is one
  that consumes none of them (a header already complete, a payload of length 0).
\<close>

definition loop_measure :: "client_info_t \<Rightarrow> string \<Rightarrow> nat" where
  "loop_measure c bs =
     2 * length bs +
     (if header_complete c then (if payload_remaining c \<le> 0 then 1 else 0)
      else (if length (recv_buffer c) \<ge> HEADER_SIZE then 2 else 0))"

lemma recv_step_decreases:
  assumes hdr: "\<And>c rest w c' bs' w'. on_header c rest w = Continue c' bs' w' \<Longrightarrow>
                  bs' = rest \<and> header_complete c'"
    and chk: "\<And>c rest w c' bs' w'. on_chunk c rest w = Continue c' bs' w' \<Longrightarrow>
                  bs' = rest \<and> \<not> header_complete c' \<and> recv_buffer c' = []"
    and ne: "bs \<noteq> []"
    and step: "recv_step on_header on_chunk c bs w = Continue c' bs' w'"
  shows "loop_measure c' bs' < loop_measure c bs"
proof (cases "header_complete c")
  case False
  define n where "n = int HEADER_SIZE - int (length (recv_buffer c))"
  define k where "k = (if int (length bs) < n then int (length bs) else n)"
  from step False have k0: "0 \<le> k"
    by (auto simp: recv_step_def Let_def n_def k_def split: if_splits)
  show ?thesis
  proof (cases "length (recv_buffer c) + nat k \<ge> HEADER_SIZE")
    case True
    with step False k0
    have "on_header (c\<lparr>recv_buffer := recv_buffer c @ take (nat k) bs\<rparr>) (drop (nat k) bs) w
            = Continue c' bs' w'"
      by (auto simp: recv_step_def Let_def n_def k_def split: if_splits)
    then have "bs' = drop (nat k) bs" "header_complete c'"
      using hdr by blast+
    with False k0 ne True show ?thesis
      by (auto simp: loop_measure_def n_def k_def split: if_splits)
  next
    case short: False
    with step False k0
    have "c' = c\<lparr>recv_buffer := recv_buffer c @ take (nat k) bs\<rparr>" "bs' = drop (nat k) bs"
      by (auto simp: recv_step_def Let_def n_def k_def split: if_splits)
    with False k0 ne short show ?thesis
      by (auto simp: loop_measure_def n_def k_def split: if_splits)
  qed
next
  case True
  define k where
    "k = (if int (length bs) < payload_remaining c then int (length bs) else payload_remaining c)"
  from step True have k0: "0 \<le> k"
    by (auto simp: recv_step_def Let_def k_def split: if_splits)
  show ?thesis
  proof (cases "payload_remaining c - k = 0")
    case full: True
    with step True k0 obtain w1 where
      "on_chunk (c\<lparr>payload_remaining := payload_remaining c - k\<rparr>) (drop (nat k) bs) w1
         = Continue c' bs' w'"
      by (auto simp: recv_step_def Let_def k_def split: if_splits)
    then have "bs' = drop (nat k) bs" "\<not> header_complete c'" "recv_buffer c' = []"
      using chk by blast+
    with True k0 ne full show ?thesis
      by (auto simp: loop_measure_def k_def split: if_splits)
  next
    case part: False
    with step True k0
    have "header_complete c'" "payload_remaining c' = payload_remaining c - k"
      "bs' = drop (nat k) bs"
      by (auto simp: recv_step_def Let_def k_def split: if_splits)
    with True k0 ne part show ?thesis
      by (auto simp: loop_measure_def k_def split: if_splits)
  qed
qed

lemma hft_header_complete_Continue:
  "hft_header_complete c rest w = Continue c' bs' w' \<Longrightarrow> bs' = rest \<and> header_complete c'"
  by (auto simp: hft_header_complete_def Let_def split: if_splits option.splits prod.splits)

lemma hft_chunk_complete_Continue:
  "hft_chunk_complete c rest w = Continue c' bs' w' \<Longrightarrow>
     bs' = rest \<and> \<not> header_complete c' \<and> recv_buffer c' = []"
  by (auto simp: hft_chunk_complete_def Let_def split: if_splits option.splits prod.splits)

lemma hcd_header_complete_Continue:
  "hcd_header_complete c rest w = Continue c' bs' w' \<Longrightarrow> bs' = rest \<and> header_complete c'"
  by (auto simp: hcd_header_complete_def Let_def split: if_splits option.splits prod.splits)

lemma hcd_chunk_complete_Continue:
  "hcd_chunk_complete c rest w = Continue c' bs' w' \<Longrightarrow>
     bs' = rest \<and> \<not> header_complete c' \<and> recv_buffer c' = []"
  by (auto simp: hcd_chunk_complete_def finish_upload_def Let_def
           split: if_splits option.splits prod.splits)

lemma hft_step_decreases:
  "bs \<noteq> [] \<Longrightarrow> hft_step c bs w = Continue c' bs' w' \<Longrightarrow>
     loop_measure c' bs' < loop_measure c bs"
  unfolding hft_step_def
  by (rule recv_step_decreases [OF hft_header_complete_Continue hft_chunk_complete_Continue])

lemma hcd_step_decreases:
  "bs \<noteq> [] \<Longrightarrow> hcd_step c bs w = Continue c' bs' w' \<Longrightarrow>
     loop_measure c' bs' < loop_measure c bs"
  unfolding hcd_step_def
  by (rule recv_step_decreases [OF hcd_header_complete_Continue hcd_chunk_complete_Continue])

text \<open>The loop of \<^verbatim>\<open>handle_file_transfer\<close> over the bytes one \<^verbatim>\<open>recv\<close> returned.\<close>

function hft_loop ::
  "client_info_t \<Rightarrow> string \<Rightarrow> world \<Rightarrow> fault + int \<times> client_info_t \<times> world" where
  "hft_loop c bs w =
     (if bs = [] then Inr (0, c, w)
      else case hft_step c bs w of
             Continue c' bs' w' \<Rightarrow> hft_loop c' bs' w'
           | Return r c' w' \<Rightarrow> Inr (r, c', w')
           | Fault \<Rightarrow> Inl OutOfBounds)"
  by pat_completeness auto
termination
  by (relation "measure (\<lambda>(c, bs, w). loop_measure c bs)") (auto dest: hft_step_decreases)

declare hft_loop.simps [simp del]

text \<open>
  \<^verbatim>\<open>handle_file_transfer\<close>, given what its \<^verbatim>\<open>recv\<close> of up to 2048 bytes returned.
\<close>

definition handle_file_transfer ::
  "client_info_t \<Rightarrow> recv_result \<Rightarrow> world \<Rightarrow> fault + int \<times> client_info_t \<times> world" where
  "handle_file_transfer c r w =
     (case r of
        Data bs \<Rightarrow> hft_loop c bs w
      | WouldBlock \<Rightarrow> Inr (0, c, w)
      | _ \<Rightarrow>
          Inr (- 1, c\<lparr>upload_file := None, state := 0\<rparr>,
               (case upload_file c of Some f \<Rightarrow> fclose w f | None \<Rightarrow> w)))"

text \<open>The loop inside \<^verbatim>\<open>handle_client_data\<close>; it ends with \<^verbatim>\<open>return 0\<close>.\<close>

function hcd_loop ::
  "client_info_t \<Rightarrow> string \<Rightarrow> world \<Rightarrow> fault + int \<times> client_info_t \<times> world" where
  "hcd_loop c bs w =
     (if bs = [] then Inr (0, c, w)
      else case hcd_step c bs w of
             Continue c' bs' w' \<Rightarrow> hcd_loop c' bs' w'
           | Return r c' w' \<Rightarrow> Inr (r, c', w')
           | Fault \<Rightarrow> Inl OutOfBounds)"
  by pat_completeness auto
termination
  by (relation "measure (\<lambda>(c, bs, w). loop_measure c bs)") (auto dest: hcd_step_decreases)

declare hcd_loop.simps [simp del]


subsection \<open>Sending a file: \<^verbatim>\<open>send_file\<close> of \<^verbatim>\<open>commands.c\<close>\<close>

text \<open>Conversion of a value to a 32 bit \<^verbatim>\<open>int\<close>.\<close>

definition c_int :: "int \<Rightarrow> int" where
  "c_int x = sint (word_of_int x :: 32 word)"

text \<open>
  The \<^verbatim>\<open>for\<close> loop of \<^verbatim>\<open>send_file\<close> (lines 155-238): the header and the payload of chunk
  \<open>i\<close>, \<open>i + 1\<close>, ... below \<open>tc\<close> (the local \<^verbatim>\<open>total_chunks\<close>), with \<open>pos\<close> the read offset of the file. \<^verbatim>\<open>fread\<close> returns
  up to 512 bytes from there. The header is zero-initialised and the name copied into it
  with \<^verbatim>\<open>strncpy(header.filename, filename, 63)\<close> for every chunk.
\<close>

function file_chunks ::
  "string \<Rightarrow> string \<Rightarrow> int \<Rightarrow> int \<Rightarrow> nat \<Rightarrow> (FileChunkHeader \<times> string) list" where
  "file_chunks name data tc i pos =
     (if i < tc
      then
        (let buffer = take CHUNK_SIZE (drop pos data);
             read_bytes = length buffer;
             header = \<lparr>chunk_id = word_of_int i, chunk_size = word_of_nat read_bytes,
                       total_chunks = word_of_int tc, type = 0,
                       filename = strncpy name (FILENAME_MAX_LEN - 1) @ [NUL]\<rparr>
         in (header, buffer) # file_chunks name data tc (i + 1) (pos + read_bytes))
      else [])"
  by pat_completeness auto
termination
  by (relation "measure (\<lambda>(name, data, tc, i, pos). nat (tc - i))") auto

declare file_chunks.simps [simp del]

text \<open>
  \<^verbatim>\<open>send_file\<close>. The file is read from \<open>files\<close>; each chunk goes out as one buffer, header
  then payload. The socket is taken to accept every buffer, so the retry loop around
  \<^verbatim>\<open>send\<close> (lines 178-215) runs once per chunk.
\<close>

definition send_file_total_chunks :: "string \<Rightarrow> int" where
  "send_file_total_chunks data = c_int ((int (length data) + int CHUNK_SIZE - 1) div int CHUNK_SIZE)"

definition send_file :: "world \<Rightarrow> string \<Rightarrow> world" where
  "send_file w name =
     (case files w name of
        None \<Rightarrow> send w ''ERROR: File not found\<newline>''
      | Some data \<Rightarrow>
          foldl (\<lambda>w' (h, p). send w' (encode_header h @ p)) w
            (file_chunks name data (send_file_total_chunks data) 0 0))"


subsection \<open>Commands\<close>

text \<open>\<^verbatim>\<open>strtok\<close> with the delimiter \<^verbatim>\<open>" "\<close>, applied until the string is used up.\<close>

function tokens :: "string \<Rightarrow> string list" where
  "tokens s =
     (let s1 = dropWhile (\<lambda>c. c = CHR '' '') s
      in if s1 = [] then []
         else takeWhile (\<lambda>c. c \<noteq> CHR '' '') s1 # tokens (dropWhile (\<lambda>c. c \<noteq> CHR '' '') s1))"
  by pat_completeness auto

lemma dropWhile_shorter:
  "xs \<noteq> [] \<Longrightarrow> \<not> P (hd xs) \<Longrightarrow> length (dropWhile (\<lambda>c. \<not> P c) xs) < length xs"
  by (cases xs) (auto simp: le_imp_less_Suc length_dropWhile_le)

termination tokens
proof (relation "measure length", goal_cases)
  case 1
  show ?case by simp
next
  case (2 s s1)
  have "s1 \<noteq> [] \<Longrightarrow> hd s1 \<noteq> CHR '' ''"
    using 2(1) hd_dropWhile [of "\<lambda>c. c = CHR '' ''" s] by simp
  with 2 have "length (dropWhile (\<lambda>c. c \<noteq> CHR '' '') s1) < length s1"
    using dropWhile_shorter [of s1 "\<lambda>c. c = CHR '' ''"] by simp
  moreover have "length s1 \<le> length s"
    using 2(1) by (simp add: length_dropWhile_le)
  ultimately show ?case by simp
qed

declare tokens.simps [simp del]

text \<open>
  \<^verbatim>\<open>process_client_command\<close>. The handlers that are not part of the transfer engine answer
  through \<open>collaborator\<close>.
\<close>

definition process_client_command ::
  "client_info_t \<Rightarrow> string \<Rightarrow> world \<Rightarrow> client_info_t \<times> world" where
  "process_client_command c command w =
     (if take 6 command = ''upload'' then (c\<lparr>state := 1\<rparr>, w)
      else if take 4 command = ''get '' then (c, send_file w (drop 4 command))
      else if command = ''ls'' \<or> command = ''pwd'' \<or> take 3 command = ''cd ''
              \<or> take 7 command = ''delete ''
           then (c, w\<lparr>outbox := outbox w @ collaborator w command\<rparr>)
      else if take 7 command = ''rename ''
           then (if length (tokens (drop 7 (take 127 command))) \<ge> 2
                 then (c, w\<lparr>outbox := outbox w @ collaborator w command\<rparr>)
                 else (c, send w ''ERROR: Invalid rename command\<newline>''))
      else if command = ''health'' then (c, w\<lparr>outbox := outbox w @ collaborator w command\<rparr>)
      else (c, send w ''ERROR: Unknown command\<newline>''))"

text \<open>
  \<^verbatim>\<open>strchr(client->buffer, '\n')\<close>: the index of the first newline before the first NUL.
\<close>

definition find_newline :: "string \<Rightarrow> nat option" where
  "find_newline buf =
     (let s = takeWhile (\<lambda>c. c \<noteq> NUL) buf
      in if CHR 0x0A \<in> set s then Some (length (takeWhile (\<lambda>c. c \<noteq> CHR 0x0A) s)) else None)"

lemma find_newline_less: "find_newline buf = Some p \<Longrightarrow> p < length buf"
proof -
  assume a: "find_newline buf = Some p"
  define s where "s = takeWhile (\<lambda>c. c \<noteq> NUL) buf"
  from a have nl: "CHR 0x0A \<in> set s" and p: "p = length (takeWhile (\<lambda>c. c \<noteq> CHR 0x0A) s)"
    by (auto simp: find_newline_def s_def Let_def split: if_splits)
  from nl have "length (takeWhile (\<lambda>c. c \<noteq> CHR 0x0A) s) < length s"
    by (induction s) auto
  moreover have "length s \<le> length buf"
    by (simp add: s_def length_takeWhile_le)
  ultimately show ?thesis using p by simp
qed

text \<open>The \<^verbatim>\<open>while\<close> loop over complete lines, lines 374-403.\<close>

function command_loop :: "client_info_t \<Rightarrow> world \<Rightarrow> client_info_t \<times> world" where
  "command_loop c w =
     (case find_newline (buffer c) of
        None \<Rightarrow> (c, w)
      | Some p \<Rightarrow>
          (let line = take p (buffer c);
               command = (if line \<noteq> [] \<and> last line = CHR 0x0D then butlast line else line);
               cw = process_client_command c command w
           in command_loop ((fst cw)\<lparr>buffer := drop (p + 1) (buffer c)\<rparr>) (snd cw)))"
  by pat_completeness auto
termination
  by (relation "measure (\<lambda>(c, w). length (buffer c))") (auto dest: find_newline_less)

declare command_loop.simps [simp del]

text \<open>The test of lines 250-258 on the bytes read in command mode.\<close>

definition hcd_detects :: "string \<Rightarrow> bool" where
  "hcd_detects bs =
     (length bs \<ge> HEADER_SIZE \<and>
      (let h = decode_header bs
       in chunk_size h > 0 \<and> chunk_size h \<le> 8192 \<and> total_chunks h > 0
          \<and> total_chunks h \<le> 2000000))"

text \<open>Lines 346-405: the bytes are text.\<close>

definition hcd_text ::
  "client_info_t \<Rightarrow> string \<Rightarrow> world \<Rightarrow> fault + int \<times> client_info_t \<times> world" where
  "hcd_text c bs w =
     (if length (buffer c) + length bs < 1024 - 1
      then (case command_loop (c\<lparr>buffer := buffer c @ bs\<rparr>) w of (c1, w1) \<Rightarrow> Inr (0, c1, w1))
      else Inr (- 1, c, send w ''ERROR: Buffer overflow - connection terminated\<newline>''))"

text \<open>
  \<^verbatim>\<open>handle_client_data\<close>, given what \<^verbatim>\<open>recv\<close> returned (up to 1023 bytes in command mode).
\<close>

definition handle_client_data ::
  "client_info_t \<Rightarrow> recv_result \<Rightarrow> world \<Rightarrow> fault + int \<times> client_info_t \<times> world" where
  "handle_client_data c r w =
     (if state c = 1 then handle_file_transfer c r w
      else case r of
             Data bs \<Rightarrow>
               if hcd_detects bs then hcd_loop (c\<lparr>state := 1\<rparr>) bs w else hcd_text c bs w
           | _ \<Rightarrow> Inr (- 1, c, w))"

text \<open>
  The event loop on \<^verbatim>\<open>EPOLLIN\<close> for a client (lines 763-773): a result of -1 removes the
  client, and \<^verbatim>\<open>remove_client\<close> closes its upload file. \<open>None\<close> is the closed connection.
\<close>

definition remove_client :: "client_info_t \<Rightarrow> world \<Rightarrow> world" where
  "remove_client c w = (case upload_file c of Some f \<Rightarrow> fclose w f | None \<Rightarrow> w)"

definition on_client_readable ::
  "client_info_t \<Rightarrow> recv_result \<Rightarrow> world \<Rightarrow> fault + client_info_t option \<times> world" where
  "on_client_readable c r w =
     (case handle_client_data c r w of
        Inl e \<Rightarrow> Inl e
      | Inr (ret, c1, w1) \<Rightarrow>
          if ret = - 1 then Inr (None, remove_client c1 w1) else Inr (Some c1, w1))"


subsection \<open>The blocking upload: \<^verbatim>\<open>receive_file\<close> of \<^verbatim>\<open>commands.c\<close>\<close>

text \<open>
  \<open>stream\<close> is what the peer sends until it closes. \<^verbatim>\<open>recv\<close> with \<^verbatim>\<open>MSG_WAITALL\<close> returns the
  bytes asked for, fewer only at the end of the stream. A header cut short leaves the
  rest of the struct unset, a \<^verbatim>\<open>chunk_size\<close> below 0 is a huge \<^verbatim>\<open>size_t\<close>, and more than 512
  payload bytes overrun the buffer: these are faults. \<open>fp\<close> is the \<^verbatim>\<open>FILE *\<close>, \<open>received\<close> is \<^verbatim>\<open>received_chunks\<close>, and
  \<open>cid\<close>, \<open>csize\<close>, \<open>ctotal\<close> are the locals \<^verbatim>\<open>chunk_id\<close>, \<^verbatim>\<open>chunk_size\<close>, \<^verbatim>\<open>total_chunks\<close>.
\<close>

definition rf_finish :: "string option \<Rightarrow> world \<Rightarrow> world" where
  "rf_finish fp w =
     (case fp of
        Some f \<Rightarrow> send (fclose w f) ''SUCCESS: File uploaded\<newline>''
      | None \<Rightarrow> send w ''ERROR: File transfer failed\<newline>'')"

text \<open>Lines 75-90: the destination is opened when the header has chunk id 0.\<close>

definition rf_open :: "FileChunkHeader \<Rightarrow> string option \<Rightarrow> world \<Rightarrow> string option \<times> world" where
  "rf_open header fp w =
     (if sint (chunk_id header) = 0
      then fopen_wb w
             (''saved/'' @ takeWhile (\<lambda>c. c \<noteq> NUL)
                             (take (FILENAME_MAX_LEN - 1) (filename header)))
      else (fp, w))"

function receive_file_loop ::
  "string option \<Rightarrow> int \<Rightarrow> string \<Rightarrow> world \<Rightarrow> fault + world" where
  "receive_file_loop fp received stream w =
     (if stream = [] then Inr (rf_finish fp w)
      else if length stream < HEADER_SIZE then Inl OutOfBounds
      else
        (let header = decode_header (take HEADER_SIZE stream);
             rest = drop HEADER_SIZE stream;
             cid = sint (chunk_id header);
             csize = sint (chunk_size header);
             ctotal = sint (total_chunks header);
             opened = rf_open header fp w
         in if cid = 0 \<and> fst opened = None
            then Inr (send (snd opened) ''ERROR: Cannot create file\<newline>'')
            else if csize < 0 \<or> (csize > int CHUNK_SIZE \<and> length rest > CHUNK_SIZE)
            then Inl OutOfBounds
            else if int (length rest) < csize then Inr (rf_finish (fst opened) (snd opened))
            else
              (let w1 = (case fst opened of
                           Some f \<Rightarrow> snd (fwrite (snd opened) f (take (nat csize) rest))
                         | None \<Rightarrow> snd opened)
               in if received + 1 \<ge> ctotal then Inr (rf_finish (fst opened) w1)
                  else receive_file_loop (fst opened) (received + 1)
                         (drop (nat csize) rest) w1)))"
  by pat_completeness auto
termination
  by (relation "measure (\<lambda>(fp, received, stream, w). length stream)") auto

declare receive_file_loop.simps [simp del]

definition receive_file :: "string \<Rightarrow> world \<Rightarrow> fault + world" where
  "receive_file stream w = receive_file_loop None 0 stream w"

subsection \<open>Where a relative path leads\<close>

text \<open>
  The walk the operating system makes along a relative path, component by component, from
  the working directory (symbolic links aside): an empty component and \<^verbatim>\<open>.\<close> stay, \<^verbatim>\<open>..\<close>
  leaves the directory reached (or climbs above the working directory), a name enters it.
  \<open>resolved path\<close> is the list of names from the working directory to the file.
\<close>

fun split_on :: "char \<Rightarrow> string \<Rightarrow> string list" where
  "split_on d [] = [[]]"
| "split_on d (c # cs) =
     (if c = d then [] # split_on d cs
      else (case split_on d cs of [] \<Rightarrow> [[c]] | x # xs \<Rightarrow> (c # x) # xs))"

fun walk :: "string list \<Rightarrow> string list \<Rightarrow> string list" where
  "walk dir [] = dir"
| "walk dir (c # cs) =
     (if c = [] \<or> c = ''.'' then walk dir cs
      else if c = ''..''
      then (if dir = [] \<or> last dir = ''..'' then walk (dir @ [c]) cs else walk (butlast dir) cs)
      else walk (dir @ [c]) cs)"

definition resolved :: "string \<Rightarrow> string list" where
  "resolved path = walk [] (split_on (CHR ''/'') path)"

section \<open>Client: \<^verbatim>\<open>epoll_client.c\<close>\<close>

datatype client_state_t = STATE_COMMAND | STATE_SENDING | STATE_RECEIVING

text \<open>
  \<^verbatim>\<open>transfer_state_t\<close>. \<open>filename\<close> is the C string in the array; \<open>file_pos\<close> is the read
  offset that belongs to \<open>file_ptr\<close>. The fields the code only resets are left out.
\<close>

record transfer_state_t =
  state :: client_state_t
  file_ptr :: "string option"
  file_pos :: nat
  filename :: string
  total_chunks :: int
  current_chunk :: int
  file_size :: int
  current_header :: FileChunkHeader

definition init_transfer_state :: transfer_state_t where
  "init_transfer_state =
     \<lparr>state = STATE_COMMAND, file_ptr = None, file_pos = 0, filename = [], total_chunks = 0,
      current_chunk = 0, file_size = 0, current_header = empty_header\<rparr>"

text \<open>
  The \<^verbatim>\<open>static\<close> variables of \<^verbatim>\<open>receive_file_chunk_epoll\<close>. \<open>recv_buffer\<close> holds the \<^verbatim>\<open>recv_pos\<close>
  bytes in use. \<open>payload_remaining\<close> is only ever set to a validated \<^verbatim>\<open>chunk_size\<close> and
  decreased by at most its value, so it is a natural number here. \<open>last_chunk_id\<close> is the
  \<^verbatim>\<open>int\<close> as its 32 bits: the code compares it with a \<^verbatim>\<open>uint32_t\<close>.
\<close>

record rfc_statics =
  recv_buffer :: string
  expecting_header :: bool
  payload_remaining :: nat
  last_chunk_id :: "32 word"
  transfer_active :: bool

definition initial_statics :: rfc_statics where
  "initial_statics =
     \<lparr>recv_buffer = [], expecting_header = True, payload_remaining = 0, last_chunk_id = - 1,
      transfer_active = False\<rparr>"

text \<open>Lines 794-855: a header is complete in \<open>recv_buffer\<close>.\<close>

definition rfc_header_complete ::
  "transfer_state_t \<Rightarrow> rfc_statics \<Rightarrow> string \<Rightarrow> world
     \<Rightarrow> (transfer_state_t \<times> rfc_statics) outcome" where
  "rfc_header_complete st ss rest w =
     (let h = decode_header (recv_buffer ss);
          st1 = st\<lparr>current_header := h\<rparr>;
          failed = ss\<lparr>transfer_active := False\<rparr>
      in if chunk_size h > 512 \<or> chunk_size h \<le> 0 then Return (- 1) (st1, failed) w
         else if FileChunkHeader.total_chunks h > 2000000 then Return (- 1) (st1, failed) w
         else if current_chunk st1 > 0 \<and> chunk_id h \<noteq> last_chunk_id ss + 1
         then Return (- 1) (st1, failed) w
         else
           (let ss1 = ss\<lparr>last_chunk_id := chunk_id h\<rparr>;
                ss2 = ss1\<lparr>expecting_header := False, payload_remaining := unat (chunk_size h),
                          recv_buffer := []\<rparr>
            in if chunk_id h = 0
               then
                 (let field = take (FILENAME_MAX_LEN - 1) (FileChunkHeader.filename h) @ [NUL];
                      name = takeWhile (\<lambda>c. c \<noteq> NUL) (take (FILENAME_MAX_LEN - 1) field);
                      st2 = st1\<lparr>current_header := h\<lparr>FileChunkHeader.filename := field\<rparr>,
                                filename := name,
                                total_chunks := sint (FileChunkHeader.total_chunks h)\<rparr>
                  in case fopen_wb w name of
                       (None, w1) \<Rightarrow>
                          Return (- 1) (st2\<lparr>file_ptr := None\<rparr>, ss1\<lparr>transfer_active := False\<rparr>) w1
                     | (Some f, w1) \<Rightarrow> Continue (st2\<lparr>file_ptr := Some f\<rparr>, ss2) rest w1)
               else Continue (st1, ss2) rest w))"

text \<open>
  Lines 867-934: a payload is complete in \<open>recv_buffer\<close>. The payload is written with one
  \<^verbatim>\<open>fwrite\<close>, whose count is tested. The stream is flushed only in a download of more than
  10000 chunks, before every thousandth chunk is counted (lines 879-882), and in one of
  more than 500000 chunks after every 500th (lines 907-911), where
  \<^verbatim>\<open>fsync(fileno(state->file_ptr))\<close> on a \<^verbatim>\<open>NULL\<close> stream is a fault.
\<close>

definition rfc_chunk_complete ::
  "transfer_state_t \<Rightarrow> rfc_statics \<Rightarrow> string \<Rightarrow> world
     \<Rightarrow> (transfer_state_t \<times> rfc_statics) outcome" where
  "rfc_chunk_complete st ss rest w =
     (let wr = (case file_ptr st of
                  Some f \<Rightarrow> fwrite w f (recv_buffer ss)
                | None \<Rightarrow> (length (recv_buffer ss), w))
      in if file_ptr st \<noteq> None \<and> fst wr \<noteq> length (recv_buffer ss)
         then Return (- 1) (st, ss\<lparr>transfer_active := False\<rparr>) (snd wr)
         else
           (let w1 = (if total_chunks st > 10000 \<and> current_chunk st mod 1000 = 0
                      then fflush_ptr (snd wr) (file_ptr st) else snd wr);
                st1 = st\<lparr>current_chunk := current_chunk st + 1\<rparr>;
                extra = (total_chunks st1 > 500000 \<and> current_chunk st1 mod 500 = 0)
            in if extra \<and> file_ptr st1 = None
               then Fault
               else
                 (let w2 = (if extra then fflush_ptr w1 (file_ptr st1) else w1)
                  in if current_chunk st1 \<ge> total_chunks st1
                     then Return 1
                            (st1, ss\<lparr>recv_buffer := [], expecting_header := True,
                                     payload_remaining := 0, last_chunk_id := - 1,
                                     transfer_active := False\<rparr>) w2
                     else Continue (st1, ss\<lparr>expecting_header := True, recv_buffer := []\<rparr>)
                            rest w2)))"

text \<open>One pass of the \<^verbatim>\<open>while\<close> loop, lines 779-936.\<close>

definition rfc_step ::
  "transfer_state_t \<Rightarrow> rfc_statics \<Rightarrow> string \<Rightarrow> world
     \<Rightarrow> (transfer_state_t \<times> rfc_statics) outcome" where
  "rfc_step st ss bs w =
     (if expecting_header ss
      then
        (let header_needed = int HEADER_SIZE - int (length (recv_buffer ss));
             to_copy = (if int (length bs) < header_needed then int (length bs)
                        else header_needed)
         in if to_copy < 0 then Fault
            else
              let ss1 = ss\<lparr>recv_buffer := recv_buffer ss @ take (nat to_copy) bs\<rparr>;
                  rest = drop (nat to_copy) bs
              in if length (recv_buffer ss1) \<ge> HEADER_SIZE
                 then rfc_header_complete st ss1 rest w
                 else Continue (st, ss1) rest w)
      else
        (let to_copy = (if length bs < payload_remaining ss then length bs
                        else payload_remaining ss);
             ss1 = ss\<lparr>recv_buffer := recv_buffer ss @ take to_copy bs,
                       payload_remaining := payload_remaining ss - to_copy\<rparr>;
             rest = drop to_copy bs
         in if payload_remaining ss1 = 0
            then rfc_chunk_complete st ss1 rest w
            else Continue (st, ss1) rest w))"

text \<open>
  The loop with its iteration limit, and the test of the limit after it (lines 779-946).
\<close>

function rfc_loop ::
  "nat \<Rightarrow> nat \<Rightarrow> transfer_state_t \<Rightarrow> rfc_statics \<Rightarrow> string \<Rightarrow> world
     \<Rightarrow> fault + int \<times> transfer_state_t \<times> rfc_statics \<times> world" where
  "rfc_loop max_iterations iteration_count st ss bs w =
     (if bs \<noteq> [] \<and> iteration_count < max_iterations
      then (case rfc_step st ss bs w of
              Continue stss bs' w' \<Rightarrow>
                rfc_loop max_iterations (iteration_count + 1) (fst stss) (snd stss) bs' w'
            | Return r stss w' \<Rightarrow> Inr (r, fst stss, snd stss, w')
            | Fault \<Rightarrow> Inl OutOfBounds)
      else if iteration_count \<ge> max_iterations
      then Inr (- 1, st, ss\<lparr>transfer_active := False\<rparr>, w)
      else Inr (0, st, ss, w))"
  by pat_completeness auto
termination
  by (relation "measure (\<lambda>(m, i, st, ss, bs, w). m - i)") auto

declare rfc_loop.simps [simp del]

definition receive_file_chunk_epoll ::
  "transfer_state_t \<Rightarrow> rfc_statics \<Rightarrow> string \<Rightarrow> world
     \<Rightarrow> fault + int \<times> transfer_state_t \<times> rfc_statics \<times> world" where
  "receive_file_chunk_epoll st ss buf w =
     (let ss1 = (if current_chunk st = 0 \<and> total_chunks st = 0 \<and> \<not> transfer_active ss
                 then ss\<lparr>recv_buffer := [], expecting_header := True, payload_remaining := 0,
                         last_chunk_id := - 1, transfer_active := True\<rparr>
                 else ss)
      in rfc_loop (2 * length buf) 0 st ss1 buf w)"

subsection \<open>The event loop of \<^verbatim>\<open>start_epoll_client\<close>\<close>

text \<open>
  The locals of the loop that outlive an iteration, with the statics of the receive
  routine; \<open>screen\<close> is the list of server lines printed.
\<close>

record client_loop =
  transfer_state :: transfer_state_t
  statics :: rfc_statics
  server_buffer :: string
  no_data_iterations :: int
  running :: bool
  screen :: "string list"

text \<open>The wait of line 199: the timeout handed to \<^verbatim>\<open>epoll_wait\<close>, in milliseconds.\<close>

definition epoll_timeout :: "client_loop \<Rightarrow> int" where
  "epoll_timeout l = (if state (transfer_state l) = STATE_RECEIVING then 10000 else - 1)"

text \<open>Lines 209-246: \<^verbatim>\<open>epoll_wait\<close> returned 0.\<close>

definition on_timeout :: "client_loop \<Rightarrow> world \<Rightarrow> client_loop \<times> world" where
  "on_timeout l w =
     (if state (transfer_state l) = STATE_RECEIVING
      then
        (let l1 = l\<lparr>no_data_iterations := no_data_iterations l + 1\<rparr>;
             max_timeouts = (if total_chunks (transfer_state l1) > 100000 then 10 else 5 :: int)
         in if no_data_iterations l1 \<ge> max_timeouts
            then (l1\<lparr>transfer_state := init_transfer_state\<rparr>,
                  (case file_ptr (transfer_state l1) of Some f \<Rightarrow> fclose w f | None \<Rightarrow> w))
            else (l1, w))
      else (l, w))"

text \<open>A run of \<open>n\<close> iterations of the loop in which \<^verbatim>\<open>epoll_wait\<close> returns 0 each time.\<close>

primrec timeouts :: "nat \<Rightarrow> client_loop \<Rightarrow> world \<Rightarrow> client_loop \<times> world" where
  "timeouts 0 l w = (l, w)"
| "timeouts (Suc n) l w = (case on_timeout l w of (l1, w1) \<Rightarrow> timeouts n l1 w1)"

text \<open>What the loop does with the result of the receive routine (lines 404-426, 457-479).\<close>

definition after_receive ::
  "client_loop \<Rightarrow> int \<times> transfer_state_t \<times> rfc_statics \<times> world \<Rightarrow> client_loop \<times> world" where
  "after_receive l res =
     (case res of (result, st, ss, w) \<Rightarrow>
        if result = 1 \<or> result = - 1
        then (l\<lparr>transfer_state := init_transfer_state, statics := ss\<rparr>,
              (case file_ptr st of Some f \<Rightarrow> fclose w f | None \<Rightarrow> w))
        else (l\<lparr>transfer_state := st, statics := ss\<rparr>, w))"

text \<open>The test of lines 431-445 on the bytes read outside a download.\<close>

definition looks_like_first_chunk :: "string \<Rightarrow> bool" where
  "looks_like_first_chunk bs =
     (length bs \<ge> HEADER_SIZE \<and>
      (let h = decode_header bs
       in chunk_id h = 0 \<and> FileChunkHeader.total_chunks h > 0
          \<and> FileChunkHeader.total_chunks h < 2000000
          \<and> chunk_size h > 0 \<and> chunk_size h \<le> 512
          \<and> (case FileChunkHeader.filename h of [] \<Rightarrow> False | c # _ \<Rightarrow> c \<noteq> NUL)))"

text \<open>
  Lines 484-538: the bytes are text. They are appended when they fit (and dropped when not),
  and every complete line that is not empty is printed.
\<close>

function print_lines :: "string \<Rightarrow> string list \<Rightarrow> string \<times> string list" where
  "print_lines buf scr =
     (case find_newline buf of
        None \<Rightarrow> (buf, scr)
      | Some p \<Rightarrow>
          print_lines (drop (p + 1) buf) (if take p buf \<noteq> [] then scr @ [take p buf] else scr))"
  by pat_completeness auto
termination
  by (relation "measure (\<lambda>(buf, scr). length buf)") (auto dest: find_newline_less)

declare print_lines.simps [simp del]

definition server_text :: "client_loop \<Rightarrow> string \<Rightarrow> client_loop" where
  "server_text l bs =
     (let buf = (if length (server_buffer l) + length bs < 4096 - 1 then server_buffer l @ bs
                 else server_buffer l);
          r = print_lines buf (screen l)
      in l\<lparr>server_buffer := fst r, screen := snd r\<rparr>)"

text \<open>Lines 381-540: the socket is readable, given what \<^verbatim>\<open>recv\<close> returned.\<close>

definition on_socket_readable ::
  "client_loop \<Rightarrow> recv_result \<Rightarrow> world \<Rightarrow> fault + client_loop \<times> world" where
  "on_socket_readable l r w =
     (case r of
        Data bs \<Rightarrow>
          if state (transfer_state l) = STATE_RECEIVING
          then (case receive_file_chunk_epoll (transfer_state l) (statics l) bs w of
                  Inl e \<Rightarrow> Inl e
                | Inr res \<Rightarrow> Inr (after_receive l res))
          else if looks_like_first_chunk bs \<and> state (transfer_state l) = STATE_COMMAND
          then (case receive_file_chunk_epoll
                       ((transfer_state l)\<lparr>state := STATE_RECEIVING, current_chunk := 0,
                                            total_chunks := 0, filename := []\<rparr>)
                       (statics l) bs w of
                  Inl e \<Rightarrow> Inl e
                | Inr res \<Rightarrow> Inr (after_receive l res))
          else Inr (server_text l bs, w)
      | _ \<Rightarrow> Inr (l\<lparr>running := False\<rparr>, w))"

text \<open>Lines 247-251: any event resets the count of timeouts before it is handled.\<close>

definition on_socket_event ::
  "client_loop \<Rightarrow> recv_result \<Rightarrow> world \<Rightarrow> fault + client_loop \<times> world" where
  "on_socket_event l r w = on_socket_readable (l\<lparr>no_data_iterations := 0\<rparr>) r w"


subsection \<open>Uploading: \<^verbatim>\<open>start_file_upload\<close> and \<^verbatim>\<open>send_file_chunk_epoll\<close>\<close>

definition start_file_upload ::
  "world \<Rightarrow> string \<Rightarrow> transfer_state_t \<Rightarrow> int \<times> transfer_state_t \<times> world" where
  "start_file_upload w name st =
     (case files w name of
        None \<Rightarrow> (- 1, st, w)
      | Some data \<Rightarrow>
          (let filesize = int (length data)
           in if filesize \<le> 0 then (- 1, st, w)
              else (0,
                    st\<lparr>state := STATE_SENDING, file_ptr := Some name, file_pos := 0,
                       filename := take (FILENAME_MAX_LEN - 1) (takeWhile (\<lambda>c. c \<noteq> NUL) name),
                       file_size := filesize,
                       total_chunks :=
                         c_int (if filesize > 0
                                then (filesize + int CHUNK_SIZE - 1) div int CHUNK_SIZE else 1),
                       current_chunk := 0\<rparr>,
                    w\<lparr>open_files := name # open_files w\<rparr>)))"

text \<open>The header of lines 702-716 for a chunk of \<open>bytes_read\<close> bytes.\<close>

definition upload_header :: "transfer_state_t \<Rightarrow> nat \<Rightarrow> FileChunkHeader" where
  "upload_header st bytes_read =
     \<lparr>chunk_id = word_of_int (current_chunk st), chunk_size = word_of_nat bytes_read,
      total_chunks = word_of_int (total_chunks st), type = 0,
      filename = (if current_chunk st = 0
                  then strncpy (filename st) (FILENAME_MAX_LEN - 1) @ [NUL]
                  else replicate FILENAME_MAX_LEN NUL)\<rparr>"

text \<open>
  \<^verbatim>\<open>send_file_chunk_epoll\<close>, with a socket that accepts both buffers (the results -2 and -1
  of a \<^verbatim>\<open>send\<close> that fails do not occur).
\<close>

definition send_file_chunk_epoll ::
  "transfer_state_t \<Rightarrow> world \<Rightarrow> int \<times> transfer_state_t \<times> world" where
  "send_file_chunk_epoll st w =
     (case file_ptr st of
        None \<Rightarrow> (- 1, st, w)
      | Some f \<Rightarrow>
          (let data = (case files w f of None \<Rightarrow> [] | Some d \<Rightarrow> d);
               file_buffer = take CHUNK_SIZE (drop (file_pos st) data);
               bytes_read = length file_buffer;
               st1 = st\<lparr>file_pos := file_pos st + bytes_read\<rparr>
           in if bytes_read \<le> 0 then (0, st1, w)
              else
                (let w1 = send (send w (encode_header (upload_header st1 bytes_read))) file_buffer;
                     st2 = st1\<lparr>current_chunk := current_chunk st1 + 1\<rparr>
                 in if current_chunk st2 \<ge> total_chunks st2 then (1, st2, w1)
                    else (0, st2, w1))))"


section \<open>Facts about the wire format\<close>

lemma bytes_of_nat:
  assumes "u < 4294967296"
  shows "(u div 16777216) mod 256 * 16777216 + (u div 65536) mod 256 * 65536
     + (u div 256) mod 256 * 256 + u mod 256 = (u::nat)"
proof -
  have 1: "u mod 65536 = 256 * (u div 256 mod 256) + u mod 256"
    using mod_mult2_eq [of u 256 256] by simp
  have 2: "u mod 16777216 = 65536 * (u div 65536 mod 256) + u mod 65536"
    using mod_mult2_eq [of u 65536 256] by simp
  have 3: "u mod 4294967296 = 16777216 * (u div 16777216 mod 256) + u mod 16777216"
    using mod_mult2_eq [of u 16777216 256] by simp
  have "u mod 4294967296 = u" using assms by simp
  with 1 2 3 show ?thesis by simp
qed

lemma be32_htonl: "be32 (htonl v @ rest) = v"
proof -
  have lt: "unat v < 4294967296" using unsigned_less [of v] by simp
  have "be32 (htonl v @ rest) =
      word_of_nat ((unat v div 16777216) mod 256 * 16777216 + (unat v div 65536) mod 256 * 65536
         + (unat v div 256) mod 256 * 256 + unat v mod 256)"
    unfolding htonl_def by (simp only: be32.simps append.simps of_char_of)
  also have "\<dots> = word_of_nat (unat v)"
    by (simp only: bytes_of_nat [OF lt])
  finally show ?thesis by simp
qed

lemma length_htonl: "length (htonl v) = 4"
  by (simp add: htonl_def)

lemma decode_encode:
  assumes len: "length (FileChunkHeader.filename h) = FILENAME_MAX_LEN"
  shows "decode_header (encode_header h @ rest) = h"
proof -
  have a: "be32 (encode_header h @ rest) = chunk_id h"
    by (simp add: encode_header_def be32_htonl)
  have b: "be32 (drop 4 (encode_header h @ rest)) = chunk_size h"
    by (simp add: encode_header_def be32_htonl length_htonl)
  have c: "be32 (drop 8 (encode_header h @ rest)) = FileChunkHeader.total_chunks h"
    by (simp add: encode_header_def be32_htonl length_htonl)
  have d: "be32 (drop 12 (encode_header h @ rest)) = type h"
    by (simp add: encode_header_def be32_htonl length_htonl)
  have e: "take FILENAME_MAX_LEN (drop 16 (encode_header h @ rest)) = FileChunkHeader.filename h"
    using len by (simp add: encode_header_def length_htonl)
  show ?thesis
    unfolding decode_header_def by (simp only: a b c d e) simp
qed

lemma length_encode_header:
  "length (FileChunkHeader.filename h) = FILENAME_MAX_LEN \<Longrightarrow>
     length (encode_header h) = HEADER_SIZE"
  by (simp add: encode_header_def length_htonl)


section \<open>Stepping the receive loops\<close>

lemma recv_step_header:
  assumes "\<not> header_complete c"
    and "length (client_info_t.recv_buffer c) \<le> HEADER_SIZE"
    and "HEADER_SIZE - length (client_info_t.recv_buffer c) \<le> length bs"
  shows "recv_step oh oc c bs w
           = oh (c\<lparr>client_info_t.recv_buffer := client_info_t.recv_buffer c
                      @ take (HEADER_SIZE - length (client_info_t.recv_buffer c)) bs\<rparr>)
               (drop (HEADER_SIZE - length (client_info_t.recv_buffer c)) bs) w"
proof -
  let ?n = "HEADER_SIZE - length (client_info_t.recv_buffer c)"
  have n: "int HEADER_SIZE - int (length (client_info_t.recv_buffer c)) = int ?n"
    using assms(2) by simp
  have "\<not> int (length bs) < int ?n" using assms(3) by simp
  then show ?thesis
    using assms(1,2,3) unfolding recv_step_def Let_def n by (simp del: of_nat_diff)
qed

lemma recv_step_payload:
  assumes "header_complete c"
    and "0 \<le> client_info_t.payload_remaining c"
    and "client_info_t.payload_remaining c \<le> int (length bs)"
  shows "recv_step oh oc c bs w
           = oc (c\<lparr>client_info_t.payload_remaining := 0\<rparr>)
               (drop (nat (client_info_t.payload_remaining c)) bs)
               (case upload_file c of
                  Some f \<Rightarrow>
                    fflush (snd (fwrite w f (take (nat (client_info_t.payload_remaining c)) bs))) f
                | None \<Rightarrow> w)"
  using assms by (simp add: recv_step_def Let_def)

lemma hft_loop_header:
  assumes "\<not> header_complete c"
    and "length (client_info_t.recv_buffer c) \<le> HEADER_SIZE"
    and "HEADER_SIZE - length (client_info_t.recv_buffer c) \<le> length bs"
    and "bs \<noteq> []"
  shows "hft_loop c bs w =
           (case hft_header_complete
                   (c\<lparr>client_info_t.recv_buffer := client_info_t.recv_buffer c
                      @ take (HEADER_SIZE - length (client_info_t.recv_buffer c)) bs\<rparr>)
               (drop (HEADER_SIZE - length (client_info_t.recv_buffer c)) bs) w of
              Continue c' bs' w' \<Rightarrow> hft_loop c' bs' w'
            | Return r c' w' \<Rightarrow> Inr (r, c', w')
            | Fault \<Rightarrow> Inl OutOfBounds)"
  by (subst hft_loop.simps)
     (simp only: assms(4) if_False hft_step_def recv_step_header [OF assms(1,2,3)])

lemma hft_loop_payload:
  assumes "header_complete c"
    and "0 \<le> client_info_t.payload_remaining c"
    and "client_info_t.payload_remaining c \<le> int (length bs)"
    and "bs \<noteq> []"
  shows "hft_loop c bs w =
           (case hft_chunk_complete (c\<lparr>client_info_t.payload_remaining := 0\<rparr>)
               (drop (nat (client_info_t.payload_remaining c)) bs)
               (case upload_file c of
                  Some f \<Rightarrow>
                    fflush (snd (fwrite w f (take (nat (client_info_t.payload_remaining c)) bs))) f
                | None \<Rightarrow> w) of
              Continue c' bs' w' \<Rightarrow> hft_loop c' bs' w'
            | Return r c' w' \<Rightarrow> Inr (r, c', w')
            | Fault \<Rightarrow> Inl OutOfBounds)"
  by (subst hft_loop.simps)
     (simp only: assms(4) if_False hft_step_def recv_step_payload [OF assms(1,2,3)])

lemma hcd_loop_header:
  assumes "\<not> header_complete c"
    and "length (client_info_t.recv_buffer c) \<le> HEADER_SIZE"
    and "HEADER_SIZE - length (client_info_t.recv_buffer c) \<le> length bs"
    and "bs \<noteq> []"
  shows "hcd_loop c bs w =
           (case hcd_header_complete
                   (c\<lparr>client_info_t.recv_buffer := client_info_t.recv_buffer c
                      @ take (HEADER_SIZE - length (client_info_t.recv_buffer c)) bs\<rparr>)
               (drop (HEADER_SIZE - length (client_info_t.recv_buffer c)) bs) w of
              Continue c' bs' w' \<Rightarrow> hcd_loop c' bs' w'
            | Return r c' w' \<Rightarrow> Inr (r, c', w')
            | Fault \<Rightarrow> Inl OutOfBounds)"
  by (subst hcd_loop.simps)
     (simp only: assms(4) if_False hcd_step_def recv_step_header [OF assms(1,2,3)])

lemma hcd_loop_payload:
  assumes "header_complete c"
    and "0 \<le> client_info_t.payload_remaining c"
    and "client_info_t.payload_remaining c \<le> int (length bs)"
    and "bs \<noteq> []"
  shows "hcd_loop c bs w =
           (case hcd_chunk_complete (c\<lparr>client_info_t.payload_remaining := 0\<rparr>)
               (drop (nat (client_info_t.payload_remaining c)) bs)
               (case upload_file c of
                  Some f \<Rightarrow>
                    fflush (snd (fwrite w f (take (nat (client_info_t.payload_remaining c)) bs))) f
                | None \<Rightarrow> w) of
              Continue c' bs' w' \<Rightarrow> hcd_loop c' bs' w'
            | Return r c' w' \<Rightarrow> Inr (r, c', w')
            | Fault \<Rightarrow> Inl OutOfBounds)"
  by (subst hcd_loop.simps)
     (simp only: assms(4) if_False hcd_step_def recv_step_payload [OF assms(1,2,3)])

lemma hcd_loop_header_short:
  assumes "\<not> header_complete c"
    and "length (client_info_t.recv_buffer c) + length bs < HEADER_SIZE"
    and "bs \<noteq> []"
  shows "hcd_loop c bs w
           = Inr (0, c\<lparr>client_info_t.recv_buffer := client_info_t.recv_buffer c @ bs\<rparr>, w)"
proof -
  have "hcd_step c bs w
          = Continue (c\<lparr>client_info_t.recv_buffer := client_info_t.recv_buffer c @ bs\<rparr>) [] w"
    using assms(1,2) by (simp add: hcd_step_def recv_step_def Let_def)
  then show ?thesis
    using assms(3) by (simp add: hcd_loop.simps [of c bs] hcd_loop.simps [of _ "[]"])
qed

lemma rfc_step_header:
  assumes "expecting_header ss"
    and "length (recv_buffer ss) \<le> HEADER_SIZE"
    and "HEADER_SIZE - length (recv_buffer ss) \<le> length bs"
  shows "rfc_step st ss bs w
           = rfc_header_complete st
               (ss\<lparr>recv_buffer := recv_buffer ss @ take (HEADER_SIZE - length (recv_buffer ss)) bs\<rparr>)
               (drop (HEADER_SIZE - length (recv_buffer ss)) bs) w"
proof -
  let ?n = "HEADER_SIZE - length (recv_buffer ss)"
  have n: "int HEADER_SIZE - int (length (recv_buffer ss)) = int ?n"
    using assms(2) by simp
  have "\<not> int (length bs) < int ?n" using assms(3) by simp
  then show ?thesis
    using assms(1,2,3) unfolding rfc_step_def Let_def n by (simp del: of_nat_diff)
qed

lemma rfc_step_payload:
  assumes "\<not> expecting_header ss"
    and "payload_remaining ss \<le> length bs"
  shows "rfc_step st ss bs w
           = rfc_chunk_complete st
               (ss\<lparr>recv_buffer := recv_buffer ss @ take (payload_remaining ss) bs,
                   payload_remaining := 0\<rparr>)
               (drop (payload_remaining ss) bs) w"
  using assms by (simp add: rfc_step_def Let_def)

lemma rfc_loop_header:
  assumes "expecting_header ss"
    and "length (recv_buffer ss) \<le> HEADER_SIZE"
    and "HEADER_SIZE - length (recv_buffer ss) \<le> length bs"
    and "bs \<noteq> []" and "i < m"
  shows "rfc_loop m i st ss bs w =
           (case rfc_header_complete st
                   (ss\<lparr>recv_buffer := recv_buffer ss
                          @ take (HEADER_SIZE - length (recv_buffer ss)) bs\<rparr>)
                   (drop (HEADER_SIZE - length (recv_buffer ss)) bs) w of
              Continue stss bs' w' \<Rightarrow> rfc_loop m (i + 1) (fst stss) (snd stss) bs' w'
            | Return r stss w' \<Rightarrow> Inr (r, fst stss, snd stss, w')
            | Fault \<Rightarrow> Inl OutOfBounds)"
  by (subst rfc_loop.simps)
     (simp only: assms(4,5) simp_thms if_True rfc_step_header [OF assms(1,2,3)])

lemma rfc_loop_payload:
  assumes "\<not> expecting_header ss"
    and "payload_remaining ss \<le> length bs"
    and "bs \<noteq> []" and "i < m"
  shows "rfc_loop m i st ss bs w =
           (case rfc_chunk_complete st
                   (ss\<lparr>recv_buffer := recv_buffer ss @ take (payload_remaining ss) bs,
                       payload_remaining := 0\<rparr>)
                   (drop (payload_remaining ss) bs) w of
              Continue stss bs' w' \<Rightarrow> rfc_loop m (i + 1) (fst stss) (snd stss) bs' w'
            | Return r stss w' \<Rightarrow> Inr (r, fst stss, snd stss, w')
            | Fault \<Rightarrow> Inl OutOfBounds)"
  by (subst rfc_loop.simps)
     (simp only: assms(3,4) simp_thms if_True rfc_step_payload [OF assms(1,2)])

section \<open>Concrete inputs\<close>

text \<open>
  The 80 bytes on the wire of a header with chunk id \<open>i\<close>, chunk size \<open>n\<close>, \<open>t\<close> chunks in all
  and the file name \<open>name\<close>, padded with NUL.
\<close>

definition wire_header :: "nat \<Rightarrow> nat \<Rightarrow> nat \<Rightarrow> string \<Rightarrow> string" where
  "wire_header i n t name =
     encode_header \<lparr>chunk_id = of_nat i, chunk_size = of_nat n, total_chunks = of_nat t,
                    type = 0, filename = strncpy name FILENAME_MAX_LEN\<rparr>"

text \<open>
  A disk with no files where every path can be created and a megabyte is free; streams
  have a buffer of 4096 bytes.
\<close>

definition disk :: world where
  "disk = \<lparr>files = Map.empty, can_open = (\<lambda>_. True), space = 1000000, open_files = [],
           buffered = (\<lambda>_. []), bufsiz = 4096, outbox = [], console = [],
           collaborator = (\<lambda>_. [])\<rparr>"

text \<open>The client loop before anything happened.\<close>

definition idle_client :: client_loop where
  "idle_client =
     \<lparr>transfer_state = init_transfer_state, statics = initial_statics, server_buffer = [],
      no_data_iterations = 0, running = True, screen = []\<rparr>"

text \<open>
  The client in the middle of a download of five chunks into the file \<open>a\<close>: chunks 0 and 1
  are written, the next header is awaited.
\<close>

definition receiving_third :: client_loop where
  "receiving_third =
     idle_client\<lparr>transfer_state :=
                   init_transfer_state\<lparr>state := STATE_RECEIVING, file_ptr := Some ''a'',
                                        total_chunks := 5, current_chunk := 2\<rparr>,
                 statics := initial_statics\<lparr>last_chunk_id := 1, transfer_active := True\<rparr>\<rparr>"

text \<open>
  A file of 513 bytes, the shortest file whose number of chunks, \<open>2^31\<close>, does not fit an
  \<^verbatim>\<open>int\<close>, and the client's transfer state right after \<^verbatim>\<open>start_file_upload\<close> of the 513 byte
  file under the name \<open>a\<close>.
\<close>

definition file_513 :: string where
  "file_513 = replicate 513 (CHR ''x'')"


definition uploading_513 :: transfer_state_t where
  "uploading_513 = fst (snd (start_file_upload (disk\<lparr>files := [''a'' \<mapsto> file_513]\<rparr>) ''a''
                                init_transfer_state))"

text \<open>The same upload when the first chunk of 512 bytes has been sent.\<close>

definition uploading_second :: transfer_state_t where
  "uploading_second = uploading_513\<lparr>current_chunk := 1, file_pos := 512\<rparr>"

text \<open>A connection of the server whose command buffer holds 1000 bytes and no newline.\<close>

definition nearly_full :: client_info_t where
  "nearly_full = (add_client 5)\<lparr>buffer := replicate 1000 (CHR ''a'')\<rparr>"

text \<open>
  A first chunk, the only one of its file, whose filename field holds \<^verbatim>\<open>../evil\<close>, with its
  payload of one byte.
\<close>

definition traversal :: string where
  "traversal = wire_header 0 1 1 ''../evil'' @ ''x''"




text \<open>A disk on which no file can be created, and a disk with no room left.\<close>

definition readonly_disk :: world where
  "readonly_disk = disk\<lparr>can_open := (\<lambda>_. False)\<rparr>"






text \<open>A connection of the server in file transfer mode, after \<^verbatim>\<open>upload\<close>.\<close>

definition uploading :: client_info_t where
  "uploading = (add_client 5)\<lparr>client_info_t.state := 1\<rparr>"

lemma length_strncpy: "length (strncpy s n) = n"
  by (simp add: strncpy_def Let_def)

lemma length_wire_header: "length (wire_header i n t name) = HEADER_SIZE"
  by (simp add: wire_header_def length_encode_header length_strncpy)

lemma decode_wire_header_app:
  "decode_header (wire_header i n t name @ rest) =
     \<lparr>chunk_id = of_nat i, chunk_size = of_nat n, total_chunks = of_nat t,
      type = 0, filename = strncpy name FILENAME_MAX_LEN\<rparr>"
  by (simp add: wire_header_def decode_encode length_strncpy)

lemma decode_wire_header:
  "decode_header (wire_header i n t name) =
     \<lparr>chunk_id = of_nat i, chunk_size = of_nat n, total_chunks = of_nat t,
      type = 0, filename = strncpy name FILENAME_MAX_LEN\<rparr>"
  using decode_wire_header_app [of i n t name "[]"] by simp

lemma wire_header_nonempty: "wire_header i n t name \<noteq> []"
  using length_wire_header [of i n t name] by auto


text \<open>The equations that run the server and the client on a concrete byte stream.\<close>

lemmas server_run =
  handle_client_data_def hcd_detects_def handle_file_transfer_def add_client_def
  hft_loop_header hft_loop_payload hcd_loop_header hcd_loop_payload hcd_loop_header_short
  length_wire_header wire_header_nonempty decode_wire_header decode_wire_header_app
  hft_header_complete_def hft_chunk_complete_def hcd_header_complete_def hcd_chunk_complete_def
  finish_upload_def Let_def c_str_def strncpy_def fopen_wb_def fwrite_def fflush_def
  write_out_def fclose_def send_def
  disk_def hft_loop.simps [of _ "[]"] hcd_loop.simps [of _ "[]"]

lemmas client_run =
  on_socket_event_def on_socket_readable_def idle_client_def init_transfer_state_def
  initial_statics_def looks_like_first_chunk_def receive_file_chunk_epoll_def
  rfc_loop_header rfc_loop_payload rfc_header_complete_def rfc_chunk_complete_def
  after_receive_def length_wire_header wire_header_nonempty decode_wire_header
  decode_wire_header_app Let_def strncpy_def fopen_wb_def fwrite_def fflush_def fflush_ptr_def
  write_out_def fclose_def disk_def

section \<open>C1: the order of chunk ids\<close>

lemma rfc_header_gap:
  assumes "0 < current_chunk st"
    and "chunk_id (decode_header (recv_buffer ss)) \<noteq> last_chunk_id ss + 1"
  shows "rfc_header_complete st ss rest w =
           Return (- 1) (st\<lparr>current_header := decode_header (recv_buffer ss)\<rparr>,
                         ss\<lparr>transfer_active := False\<rparr>) w"
  using assms by (simp add: rfc_header_complete_def Let_def)

lemma rfc_gap_returns:
  assumes pos: "0 < current_chunk st"
    and hdr: "expecting_header ss" "length (recv_buffer ss) \<le> HEADER_SIZE"
      "HEADER_SIZE - length (recv_buffer ss) \<le> length buf" "buf \<noteq> []"
    and gap: "chunk_id (decode_header
                 (recv_buffer ss @ take (HEADER_SIZE - length (recv_buffer ss)) buf))
               \<noteq> last_chunk_id ss + 1"
  shows "receive_file_chunk_epoll st ss buf w =
           Inr (- 1,
                st\<lparr>current_header := decode_header
                      (recv_buffer ss @ take (HEADER_SIZE - length (recv_buffer ss)) buf)\<rparr>,
                ss\<lparr>recv_buffer := recv_buffer ss
                       @ take (HEADER_SIZE - length (recv_buffer ss)) buf,
                    transfer_active := False\<rparr>, w)"
proof -
  have m: "0 < 2 * length buf" using hdr(4) by simp
  have "receive_file_chunk_epoll st ss buf w = rfc_loop (2 * length buf) 0 st ss buf w"
    using pos by (simp add: receive_file_chunk_epoll_def)
  also have "\<dots> = Inr (- 1,
                st\<lparr>current_header := decode_header
                      (recv_buffer ss @ take (HEADER_SIZE - length (recv_buffer ss)) buf)\<rparr>,
                ss\<lparr>recv_buffer := recv_buffer ss
                       @ take (HEADER_SIZE - length (recv_buffer ss)) buf,
                    transfer_active := False\<rparr>, w)"
    using gap pos by (simp add: rfc_loop_header [OF hdr m] rfc_header_gap)
  finally show ?thesis .
qed

lemma rfc_accept_in_sequence:
  assumes "0 < current_chunk st"
    and "rfc_header_complete st ss rest w = Continue (st', ss') rest' w'"
  shows "chunk_id (decode_header (recv_buffer ss)) = last_chunk_id ss + 1
         \<and> last_chunk_id ss' = last_chunk_id ss + 1"
  using assms
  by (auto simp: rfc_header_complete_def Let_def fopen_wb_def
           split: if_splits prod.splits option.splits)

lemma client_gap_run:
  "(case on_socket_event idle_client
           (Data (wire_header 0 1 5 ''a'' @ ''x'' @ wire_header 1 1 5 [] @ ''y''
                  @ wire_header 3 1 5 [] @ ''z'')) disk of
      Inr (l, w) \<Rightarrow> transfer_state l = init_transfer_state \<and> files w ''a'' = Some ''xy''
          \<and> open_files w = []
    | Inl _ \<Rightarrow> False)"
  by (simp add: client_run)

text \<open>
  C1, as the code has it. The client's \<^verbatim>\<open>receive_file_chunk_epoll\<close> checks the order: when
  a header is completed by the bytes \<open>buf\<close> while \<^verbatim>\<open>current_chunk > 0\<close> and its chunk id is not
  \<^verbatim>\<open>last_chunk_id + 1\<close>, the routine returns -1 without touching the file, and the event loop
  closes the file and resets the transfer state; a header that is accepted after the first
  chunk has the id \<^verbatim>\<open>last_chunk_id + 1\<close>, which becomes the new \<^verbatim>\<open>last_chunk_id\<close>. A download
  of five chunks that arrives with the ids 0, 1, 3 is aborted at the third header: the file
  holds the first two payloads and is closed, and the client is back in command state.
\<close>

theorem C1_client_sequence_check:
  "(state (transfer_state l) = STATE_RECEIVING \<and> 0 < current_chunk (transfer_state l)
      \<and> expecting_header (statics l) \<and> length (recv_buffer (statics l)) \<le> HEADER_SIZE
      \<and> HEADER_SIZE - length (recv_buffer (statics l)) \<le> length buf \<and> buf \<noteq> []
      \<and> chunk_id (decode_header (recv_buffer (statics l)
            @ take (HEADER_SIZE - length (recv_buffer (statics l))) buf))
          \<noteq> last_chunk_id (statics l) + 1
    \<longrightarrow> (\<exists>st1 ss1. receive_file_chunk_epoll (transfer_state l) (statics l) buf w
                       = Inr (- 1, st1, ss1, w))
        \<and> (\<exists>ss1. on_socket_readable l (Data buf) w
                    = Inr (l\<lparr>transfer_state := init_transfer_state, statics := ss1\<rparr>,
                           (case file_ptr (transfer_state l) of
                              Some f \<Rightarrow> fclose w f | None \<Rightarrow> w))))
   \<and> (0 < current_chunk st \<and> rfc_header_complete st ss rest w0 = Continue (st', ss') rest' w'
        \<longrightarrow> chunk_id (decode_header (recv_buffer ss)) = last_chunk_id ss + 1
            \<and> last_chunk_id ss' = last_chunk_id ss + 1)
   \<and> (case on_socket_event idle_client
              (Data (wire_header 0 1 5 ''a'' @ ''x'' @ wire_header 1 1 5 [] @ ''y''
                     @ wire_header 3 1 5 [] @ ''z'')) disk of
         Inr (l1, w1) \<Rightarrow> transfer_state l1 = init_transfer_state
             \<and> files w1 ''a'' = Some ''xy'' \<and> open_files w1 = []
       | Inl _ \<Rightarrow> False)"
proof (intro conjI impI)
  assume a: "state (transfer_state l) = STATE_RECEIVING \<and> 0 < current_chunk (transfer_state l)
      \<and> expecting_header (statics l) \<and> length (recv_buffer (statics l)) \<le> HEADER_SIZE
      \<and> HEADER_SIZE - length (recv_buffer (statics l)) \<le> length buf \<and> buf \<noteq> []
      \<and> chunk_id (decode_header (recv_buffer (statics l)
            @ take (HEADER_SIZE - length (recv_buffer (statics l))) buf))
          \<noteq> last_chunk_id (statics l) + 1"
  then have r: "receive_file_chunk_epoll (transfer_state l) (statics l) buf w =
           Inr (- 1,
                (transfer_state l)\<lparr>current_header := decode_header
                      (recv_buffer (statics l)
                         @ take (HEADER_SIZE - length (recv_buffer (statics l))) buf)\<rparr>,
                (statics l)\<lparr>recv_buffer := recv_buffer (statics l)
                       @ take (HEADER_SIZE - length (recv_buffer (statics l))) buf,
                    transfer_active := False\<rparr>, w)"
    by (intro rfc_gap_returns) simp_all
  then show "\<exists>st1 ss1. receive_file_chunk_epoll (transfer_state l) (statics l) buf w
                       = Inr (- 1, st1, ss1, w)"
    by blast
  from a r show "\<exists>ss1. on_socket_readable l (Data buf) w
                    = Inr (l\<lparr>transfer_state := init_transfer_state, statics := ss1\<rparr>,
                           (case file_ptr (transfer_state l) of
                              Some f \<Rightarrow> fclose w f | None \<Rightarrow> w))"
    by (simp add: on_socket_readable_def after_receive_def) blast
next
  assume "0 < current_chunk st
            \<and> rfc_header_complete st ss rest w0 = Continue (st', ss') rest' w'"
  then show "chunk_id (decode_header (recv_buffer ss)) = last_chunk_id ss + 1"
    and "last_chunk_id ss' = last_chunk_id ss + 1"
    using rfc_accept_in_sequence by blast+
next
  show "case on_socket_event idle_client
              (Data (wire_header 0 1 5 ''a'' @ ''x'' @ wire_header 1 1 5 [] @ ''y''
                     @ wire_header 3 1 5 [] @ ''z'')) disk of
         Inr (l1, w1) \<Rightarrow> transfer_state l1 = init_transfer_state
             \<and> files w1 ''a'' = Some ''xy'' \<and> open_files w1 = []
       | Inl _ \<Rightarrow> False"
    by (rule client_gap_run)
qed

text \<open>
  The theorem of C1 at the client that has written chunks 0 and 1 and now reads the header
  of chunk 3 and one payload byte.
\<close>

theorem C1_client_sequence_check_witness:
  "(state (transfer_state receiving_third) = STATE_RECEIVING
      \<and> 0 < current_chunk (transfer_state receiving_third)
      \<and> expecting_header (statics receiving_third)
      \<and> length (recv_buffer (statics receiving_third)) \<le> HEADER_SIZE
      \<and> HEADER_SIZE - length (recv_buffer (statics receiving_third))
           \<le> length (wire_header 3 1 5 [] @ ''z'')
      \<and> wire_header 3 1 5 [] @ ''z'' \<noteq> []
      \<and> chunk_id (decode_header (recv_buffer (statics receiving_third)
            @ take (HEADER_SIZE - length (recv_buffer (statics receiving_third)))
                (wire_header 3 1 5 [] @ ''z'')))
          \<noteq> last_chunk_id (statics receiving_third) + 1)
   \<and> (\<exists>ss1. on_socket_readable receiving_third (Data (wire_header 3 1 5 [] @ ''z'')) disk
               = Inr (receiving_third\<lparr>transfer_state := init_transfer_state, statics := ss1\<rparr>,
                      fclose disk ''a''))"
proof -
  have h: "state (transfer_state receiving_third) = STATE_RECEIVING
      \<and> 0 < current_chunk (transfer_state receiving_third)
      \<and> expecting_header (statics receiving_third)
      \<and> length (recv_buffer (statics receiving_third)) \<le> HEADER_SIZE
      \<and> HEADER_SIZE - length (recv_buffer (statics receiving_third))
           \<le> length (wire_header 3 1 5 [] @ ''z'')
      \<and> wire_header 3 1 5 [] @ ''z'' \<noteq> []
      \<and> chunk_id (decode_header (recv_buffer (statics receiving_third)
            @ take (HEADER_SIZE - length (recv_buffer (statics receiving_third)))
                (wire_header 3 1 5 [] @ ''z'')))
          \<noteq> last_chunk_id (statics receiving_third) + 1"
    by (simp add: receiving_third_def idle_client_def init_transfer_state_def
          initial_statics_def length_wire_header wire_header_nonempty decode_wire_header)
  have f: "file_ptr (transfer_state receiving_third) = Some ''a''"
    by (simp add: receiving_third_def)
  from h C1_client_sequence_check [of receiving_third "wire_header 3 1 5 [] @ ''z''" disk]
  show ?thesis by (simp only: f option.case) blast
qed

text \<open>
  C1 as the spec states it fails on the server: \<^verbatim>\<open>handle_file_transfer\<close> never compares chunk
  ids. An upload of five chunks that arrives with the ids 0, 1, 3 is not aborted: the
  call returns 0, the connection stays in file transfer mode with three chunks counted, no
  error line is sent, and all three payloads are in the file.
\<close>

theorem C1_server_accepts_gap:
  "(case handle_file_transfer ((add_client 5)\<lparr>client_info_t.state := 1\<rparr>)
           (Data (wire_header 0 1 5 ''a'' @ ''x'' @ wire_header 1 1 5 [] @ ''y''
                  @ wire_header 3 1 5 [] @ ''z'')) disk of
      Inr (ret, c, w) \<Rightarrow> ret = 0 \<and> client_info_t.state c = 1 \<and> received_chunks c = 3
          \<and> outbox w = [] \<and> files w ''saved/a'' = Some ''xyz''
    | Inl _ \<Rightarrow> False)"
  by (simp add: server_run)


section \<open>C2: the chunk counters\<close>

text \<open>
  While fewer chunks are counted than expected, the end of a payload completes the
  transfer exactly when the count reaches the expected number.
\<close>

lemma hft_complete_at_equality:
  assumes "received_chunks c < expected_chunks c"
  shows "(\<exists>c' w'. hft_chunk_complete c rest w = Return 0 c' w')
           \<longleftrightarrow> received_chunks c + 1 = expected_chunks c"
  using assms by (auto simp: hft_chunk_complete_def finish_upload_def Let_def)

text \<open>
  C2 at an input where the code departs from it. A connection in file transfer mode (after
  \<^verbatim>\<open>upload\<close>) receives, as its first header, one with chunk id 1, chunk size 1 and five
  chunks in all, and one payload byte. \<^verbatim>\<open>expected_chunks\<close> is only set by a header with
  chunk id 0, so it is still 0 when the payload ends: the console line reads
  \<^verbatim>\<open>Received chunk 1/0\<close>, the count is above the expected number, and the upload is declared
  complete (the success line is sent, the mode is command again) with no file written.
\<close>

theorem C2_success_after_one_of_five:
  "(case handle_file_transfer ((add_client 5)\<lparr>client_info_t.state := 1\<rparr>)
           (Data (wire_header 1 1 5 [] @ ''x'')) disk of
      Inr (ret, c, w) \<Rightarrow> ret = 0 \<and> client_info_t.state c = 0
          \<and> outbox w = [''SUCCESS: File uploaded\<newline>''] \<and> console w = [(1, 0)]
          \<and> files w = Map.empty
    | Inl _ \<Rightarrow> False)"
  by (simp add: server_run)

section \<open>C3: validation of the sizes in a header\<close>

text \<open>
  \<^verbatim>\<open>handle_file_transfer\<close> refuses a header with \<^verbatim>\<open>chunk_size\<close> 0 or above 8192, or with
  \<^verbatim>\<open>total_chunks\<close> 0 or above 2000000, as soon as its 80 bytes are there: it sends the error
  line, sets command mode and returns -1; the bytes after the header are not looked at and
  no file is written.
\<close>

lemma hft_invalid_header:
  assumes hdr: "\<not> header_complete c" "length (client_info_t.recv_buffer c) \<le> HEADER_SIZE"
      "HEADER_SIZE - length (client_info_t.recv_buffer c) \<le> length bs" "bs \<noteq> []"
    and bad: "chunk_size (decode_header (client_info_t.recv_buffer c
                 @ take (HEADER_SIZE - length (client_info_t.recv_buffer c)) bs)) = 0
            \<or> FileChunkHeader.total_chunks (decode_header (client_info_t.recv_buffer c
                 @ take (HEADER_SIZE - length (client_info_t.recv_buffer c)) bs)) = 0
            \<or> chunk_size (decode_header (client_info_t.recv_buffer c
                 @ take (HEADER_SIZE - length (client_info_t.recv_buffer c)) bs)) > 8192
            \<or> FileChunkHeader.total_chunks (decode_header (client_info_t.recv_buffer c
                 @ take (HEADER_SIZE - length (client_info_t.recv_buffer c)) bs)) > 2000000"
  shows "hft_loop c bs w =
           Inr (- 1,
                c\<lparr>client_info_t.recv_buffer := client_info_t.recv_buffer c
                      @ take (HEADER_SIZE - length (client_info_t.recv_buffer c)) bs,
                  client_info_t.current_header := decode_header (client_info_t.recv_buffer c
                      @ take (HEADER_SIZE - length (client_info_t.recv_buffer c)) bs),
                  header_complete := True, client_info_t.state := 0\<rparr>,
                send w ''ERROR: Invalid file transfer header\<newline>'')"
  using bad by (simp add: hft_loop_header [OF hdr] hft_header_complete_def Let_def)

text \<open>
  C3 at an input where the code departs from it. The loop inside \<^verbatim>\<open>handle_client_data\<close>
  checks only the header at the start of the bytes read (the test that switches the mode).
  A connection in command mode reads 162 bytes: a first chunk (id 0, size 1, three chunks
  in all), then a header with \<^verbatim>\<open>chunk_size\<close> 0, then one more byte. The second header is not
  refused: it is counted as a chunk of its own (\<^verbatim>\<open>Received chunk 2/3\<close>), no error line is
  sent, and the connection stays in file transfer mode.
\<close>

theorem C3_inline_loop_accepts_zero_size:
  "(case handle_client_data (add_client 5)
           (Data (wire_header 0 1 3 ''a'' @ ''x'' @ wire_header 1 0 3 [] @ ''y'')) disk of
      Inr (ret, c, w) \<Rightarrow> ret = 0 \<and> client_info_t.state c = 1 \<and> received_chunks c = 2
          \<and> outbox w = [] \<and> console w = [(1, 3), (2, 3)]
    | Inl _ \<Rightarrow> False)"
  by (simp add: server_run)

section \<open>C4: when bytes read in command mode start a transfer\<close>

text \<open>The test on \<^verbatim>\<open>filename[0]\<close>, for bytes that hold a whole header.\<close>

lemma filename_decode_nth:
  "HEADER_SIZE \<le> length bs \<Longrightarrow>
     (case FileChunkHeader.filename (decode_header bs) of [] \<Rightarrow> False | c # _ \<Rightarrow> c \<noteq> NUL)
       = (FileChunkHeader.filename (decode_header bs) ! 0 \<noteq> NUL)"
  by (cases "drop 16 bs") (auto simp: decode_header_def)

text \<open>
  C4, as the code has it. In command state the client takes the bytes of a \<^verbatim>\<open>recv\<close> for the
  start of a download exactly when there are at least 80 of them and, read as a header,
  they have chunk id 0, a chunk size from 1 to 512, a chunk total from 1 to 1999999 and a
  first filename byte that is not NUL; other bytes go to the text buffer. The server,
  outside file transfer mode, takes them for the start of an upload exactly when there are
  at least 80 with a chunk size from 1 to 8192 and a chunk total from 1 to 2000000; chunk id
  and filename are not looked at. Other bytes are text for the command buffer.
\<close>

theorem C4_mode_switch_detection:
  "(state (transfer_state l) = STATE_COMMAND
      \<and> \<not> (HEADER_SIZE \<le> length bs \<and> chunk_id (decode_header bs) = 0
             \<and> 0 < chunk_size (decode_header bs) \<and> chunk_size (decode_header bs) \<le> 512
             \<and> 0 < FileChunkHeader.total_chunks (decode_header bs)
             \<and> FileChunkHeader.total_chunks (decode_header bs) < 2000000
             \<and> FileChunkHeader.filename (decode_header bs) ! 0 \<noteq> NUL)
    \<longrightarrow> on_socket_readable l (Data bs) w = Inr (server_text l bs, w))
   \<and> (state (transfer_state l) = STATE_COMMAND
      \<and> HEADER_SIZE \<le> length bs \<and> chunk_id (decode_header bs) = 0
      \<and> 0 < chunk_size (decode_header bs) \<and> chunk_size (decode_header bs) \<le> 512
      \<and> 0 < FileChunkHeader.total_chunks (decode_header bs)
      \<and> FileChunkHeader.total_chunks (decode_header bs) < 2000000
      \<and> FileChunkHeader.filename (decode_header bs) ! 0 \<noteq> NUL
    \<longrightarrow> on_socket_readable l (Data bs) w =
          (case receive_file_chunk_epoll
                  ((transfer_state l)\<lparr>state := STATE_RECEIVING, current_chunk := 0,
                                       total_chunks := 0, filename := []\<rparr>)
                  (statics l) bs w of
             Inl e \<Rightarrow> Inl e
           | Inr res \<Rightarrow> Inr (after_receive l res)))
   \<and> (client_info_t.state c \<noteq> 1
      \<and> \<not> (HEADER_SIZE \<le> length bs
             \<and> 0 < chunk_size (decode_header bs) \<and> chunk_size (decode_header bs) \<le> 8192
             \<and> 0 < FileChunkHeader.total_chunks (decode_header bs)
             \<and> FileChunkHeader.total_chunks (decode_header bs) \<le> 2000000)
    \<longrightarrow> handle_client_data c (Data bs) w = hcd_text c bs w)
   \<and> (client_info_t.state c \<noteq> 1
      \<and> HEADER_SIZE \<le> length bs
      \<and> 0 < chunk_size (decode_header bs) \<and> chunk_size (decode_header bs) \<le> 8192
      \<and> 0 < FileChunkHeader.total_chunks (decode_header bs)
      \<and> FileChunkHeader.total_chunks (decode_header bs) \<le> 2000000
    \<longrightarrow> handle_client_data c (Data bs) w = hcd_loop (c\<lparr>client_info_t.state := 1\<rparr>) bs w)"
proof (intro conjI impI)
  assume a: "state (transfer_state l) = STATE_COMMAND
      \<and> \<not> (HEADER_SIZE \<le> length bs \<and> chunk_id (decode_header bs) = 0
             \<and> 0 < chunk_size (decode_header bs) \<and> chunk_size (decode_header bs) \<le> 512
             \<and> 0 < FileChunkHeader.total_chunks (decode_header bs)
             \<and> FileChunkHeader.total_chunks (decode_header bs) < 2000000
             \<and> FileChunkHeader.filename (decode_header bs) ! 0 \<noteq> NUL)"
  then have "\<not> looks_like_first_chunk bs"
    using filename_decode_nth [of bs] by (auto simp: looks_like_first_chunk_def Let_def)
  with a show "on_socket_readable l (Data bs) w = Inr (server_text l bs, w)"
    by (simp add: on_socket_readable_def)
next
  assume a: "state (transfer_state l) = STATE_COMMAND
      \<and> HEADER_SIZE \<le> length bs \<and> chunk_id (decode_header bs) = 0
      \<and> 0 < chunk_size (decode_header bs) \<and> chunk_size (decode_header bs) \<le> 512
      \<and> 0 < FileChunkHeader.total_chunks (decode_header bs)
      \<and> FileChunkHeader.total_chunks (decode_header bs) < 2000000
      \<and> FileChunkHeader.filename (decode_header bs) ! 0 \<noteq> NUL"
  then have "looks_like_first_chunk bs"
    using filename_decode_nth [of bs] by (auto simp: looks_like_first_chunk_def Let_def)
  with a show "on_socket_readable l (Data bs) w =
          (case receive_file_chunk_epoll
                  ((transfer_state l)\<lparr>state := STATE_RECEIVING, current_chunk := 0,
                                       total_chunks := 0, filename := []\<rparr>)
                  (statics l) bs w of
             Inl e \<Rightarrow> Inl e
           | Inr res \<Rightarrow> Inr (after_receive l res))"
    by (simp add: on_socket_readable_def)
next
  assume "client_info_t.state c \<noteq> 1
      \<and> \<not> (HEADER_SIZE \<le> length bs
             \<and> 0 < chunk_size (decode_header bs) \<and> chunk_size (decode_header bs) \<le> 8192
             \<and> 0 < FileChunkHeader.total_chunks (decode_header bs)
             \<and> FileChunkHeader.total_chunks (decode_header bs) \<le> 2000000)"
  then show "handle_client_data c (Data bs) w = hcd_text c bs w"
    by (auto simp: handle_client_data_def hcd_detects_def Let_def)
next
  assume "client_info_t.state c \<noteq> 1
      \<and> HEADER_SIZE \<le> length bs
      \<and> 0 < chunk_size (decode_header bs) \<and> chunk_size (decode_header bs) \<le> 8192
      \<and> 0 < FileChunkHeader.total_chunks (decode_header bs)
      \<and> FileChunkHeader.total_chunks (decode_header bs) \<le> 2000000"
  then show "handle_client_data c (Data bs) w = hcd_loop (c\<lparr>client_info_t.state := 1\<rparr>) bs w"
    by (auto simp: handle_client_data_def hcd_detects_def Let_def)
qed

text \<open>
  The theorem of C4 at a line of text (fewer than 80 bytes) and at the header of a first
  chunk, for the idle client and for a new connection of the server.
\<close>

theorem C4_mode_switch_detection_witness:
  "(state (transfer_state idle_client) = STATE_COMMAND
      \<and> \<not> (HEADER_SIZE \<le> length ''OK: Directory changed\<newline>'')
      \<and> on_socket_readable idle_client (Data ''OK: Directory changed\<newline>'') disk
          = Inr (server_text idle_client ''OK: Directory changed\<newline>'', disk))
   \<and> (HEADER_SIZE \<le> length (wire_header 0 1 5 ''a'')
      \<and> chunk_id (decode_header (wire_header 0 1 5 ''a'')) = 0
      \<and> chunk_size (decode_header (wire_header 0 1 5 ''a'')) = 1
      \<and> FileChunkHeader.total_chunks (decode_header (wire_header 0 1 5 ''a'')) = 5
      \<and> FileChunkHeader.filename (decode_header (wire_header 0 1 5 ''a'')) ! 0 = CHR ''a''
      \<and> on_socket_readable idle_client (Data (wire_header 0 1 5 ''a'')) disk =
          (case receive_file_chunk_epoll
                  ((transfer_state idle_client)\<lparr>state := STATE_RECEIVING, current_chunk := 0,
                                       total_chunks := 0, filename := []\<rparr>)
                  (statics idle_client) (wire_header 0 1 5 ''a'') disk of
             Inl e \<Rightarrow> Inl e
           | Inr res \<Rightarrow> Inr (after_receive idle_client res)))
   \<and> (client_info_t.state (add_client 5) \<noteq> 1
      \<and> handle_client_data (add_client 5) (Data ''OK: Directory changed\<newline>'') disk
           = hcd_text (add_client 5) ''OK: Directory changed\<newline>'' disk)
   \<and> handle_client_data (add_client 5) (Data (wire_header 0 1 5 ''a'')) disk
        = hcd_loop ((add_client 5)\<lparr>client_info_t.state := 1\<rparr>) (wire_header 0 1 5 ''a'') disk"
proof -
  have s: "state (transfer_state idle_client) = STATE_COMMAND"
    by (simp add: idle_client_def init_transfer_state_def)
  have c: "client_info_t.state (add_client 5) \<noteq> 1"
    by (simp add: add_client_def)
  have d: "chunk_id (decode_header (wire_header 0 1 5 ''a'')) = 0"
    "chunk_size (decode_header (wire_header 0 1 5 ''a'')) = 1"
    "FileChunkHeader.total_chunks (decode_header (wire_header 0 1 5 ''a'')) = 5"
    "FileChunkHeader.filename (decode_header (wire_header 0 1 5 ''a'')) ! 0 = CHR ''a''"
    by (simp_all add: decode_wire_header strncpy_def)
  have n: "\<not> (HEADER_SIZE \<le> length ''OK: Directory changed\<newline>'')"
    by simp
  note t1 = C4_mode_switch_detection
              [of idle_client "''OK: Directory changed\<newline>''" disk "add_client 5"]
  note t2 = C4_mode_switch_detection [of idle_client "wire_header 0 1 5 ''a''" disk "add_client 5"]
  from t1 s n c have
    "on_socket_readable idle_client (Data ''OK: Directory changed\<newline>'') disk
          = Inr (server_text idle_client ''OK: Directory changed\<newline>'', disk)"
    "handle_client_data (add_client 5) (Data ''OK: Directory changed\<newline>'') disk
           = hcd_text (add_client 5) ''OK: Directory changed\<newline>'' disk"
    by blast+
  moreover from t2 s c d have
    "on_socket_readable idle_client (Data (wire_header 0 1 5 ''a'')) disk =
          (case receive_file_chunk_epoll
                  ((transfer_state idle_client)\<lparr>state := STATE_RECEIVING, current_chunk := 0,
                                       total_chunks := 0, filename := []\<rparr>)
                  (statics idle_client) (wire_header 0 1 5 ''a'') disk of
             Inl e \<Rightarrow> Inl e
           | Inr res \<Rightarrow> Inr (after_receive idle_client res))"
    "handle_client_data (add_client 5) (Data (wire_header 0 1 5 ''a'')) disk
        = hcd_loop ((add_client 5)\<lparr>client_info_t.state := 1\<rparr>) (wire_header 0 1 5 ''a'') disk"
    by (simp_all add: length_wire_header)
  ultimately show ?thesis
    using s n c d by (simp add: length_wire_header)
qed

text \<open>
  C4 as the spec states it fails on the server: 80 bytes that decode to chunk id 7 and an
  empty filename, with plausible sizes, are not treated as text. The connection switches
  to file transfer mode and nothing reaches the command buffer.
\<close>

theorem C4_server_switches_on_nonzero_id:
  "(case handle_client_data (add_client 5) (Data (wire_header 7 1 5 [])) disk of
      Inr (ret, c, w) \<Rightarrow> ret = 0 \<and> client_info_t.state c = 1 \<and> buffer c = []
          \<and> outbox w = []
    | Inl _ \<Rightarrow> False)"
  by (simp add: server_run)


section \<open>C5: what a failed validation does to the transfer\<close>

text \<open>
  When \<^verbatim>\<open>fwrite\<close> reports a short count: data that fits the buffer of the stream is always
  taken in full, whatever the disk; a short count needs a buffer that overflows and a disk
  that does not take what is in it.
\<close>

lemma fwrite_fits:
  assumes "length data \<le> bufsiz w - length (buffered w f)"
  shows "fst (fwrite w f data) = length data"
  using assms by (simp add: fwrite_def Let_def)

lemma fwrite_short:
  assumes "bufsiz w - length (buffered w f) < length data"
    and "space w < length (buffered w f) + (bufsiz w - length (buffered w f))"
  shows "fst (fwrite w f data) = bufsiz w - length (buffered w f)"
  using assms by (simp add: fwrite_def Let_def min_def)


















text \<open>
  Two things the theorem leaves out. The loop inside \<^verbatim>\<open>handle_client_data\<close>, which
  handles the read that switches a connection to file transfer mode, does not test the
  result of \<^verbatim>\<open>fopen\<close> (lines 288-297), unlike \<^verbatim>\<open>handle_file_transfer\<close>: on the disk where no
  file can be created the first chunk of two is read on, no error line is sent, and as
  \<open>expected_chunks\<close> was never set the upload is reported as a success after that chunk,
  with no file written. And when \<^verbatim>\<open>handle_file_transfer\<close>
  fails to create the file of a chunk 0 while an upload file is open, the pointer to the
  open stream is overwritten (line 578): the stream is not closed.
\<close>

lemma inline_loop_ignores_failed_open:
  "(case handle_client_data (add_client 5) (Data (wire_header 0 1 2 ''a'' @ ''x''))
           readonly_disk of
      Inr (ret, c, w) \<Rightarrow> ret = 0 \<and> client_info_t.state c = 0
          \<and> outbox w = [''SUCCESS: File uploaded\<newline>''] \<and> upload_file c = None
          \<and> files w ''saved/a'' = None
    | Inl _ \<Rightarrow> False)"
  by (simp add: server_run readonly_disk_def)

lemma failed_create_leaves_stream_open:
  "on_client_readable (uploading\<lparr>upload_file := Some ''saved/b''\<rparr>)
       (Data (wire_header 0 1 1 ''a'' @ ''x''))
       (readonly_disk\<lparr>open_files := [''saved/b'']\<rparr>)
     = Inr (None, send (readonly_disk\<lparr>open_files := [''saved/b'']\<rparr>)
                    ''ERROR: Cannot create file\<newline>'')
   \<and> open_files (send (readonly_disk\<lparr>open_files := [''saved/b'']\<rparr>)
                    ''ERROR: Cannot create file\<newline>'') = [''saved/b'']"
  by (simp add: server_run on_client_readable_def remove_client_def uploading_def
        readonly_disk_def)


section \<open>C6: the number of chunks on the send path\<close>





lemma file_chunks_headers:
  "(h, p) \<in> set (file_chunks name data tc i pos) \<Longrightarrow>
     unat (chunk_size h) = length p \<and> length p \<le> CHUNK_SIZE
     \<and> FileChunkHeader.filename h = strncpy name (FILENAME_MAX_LEN - 1) @ [NUL]
     \<and> FileChunkHeader.total_chunks h = word_of_int tc"
proof (induction name data tc i pos rule: file_chunks.induct)
  case (1 name data tc i pos)
  show ?case
  proof (cases "i < tc")
    case True
    let ?buffer = "take CHUNK_SIZE (drop pos data)"
    have len: "length ?buffer \<le> CHUNK_SIZE" by simp
    have u: "unat (word_of_nat (length ?buffer) :: 32 word) = length ?buffer"
      using len by (simp add: unat_of_nat del: length_take)
    from "1.prems" True consider
        "h = \<lparr>chunk_id = word_of_int i, chunk_size = word_of_nat (length ?buffer),
              total_chunks = word_of_int tc, type = 0,
              filename = strncpy name (FILENAME_MAX_LEN - 1) @ [NUL]\<rparr>" "p = ?buffer"
      | "(h, p) \<in> set (file_chunks name data tc (i + 1) (pos + length ?buffer))"
      by (subst (asm) file_chunks.simps) (auto simp: Let_def)
    then show ?thesis
    proof cases
      case 1
      then show ?thesis using u len by (simp del: length_take)
    next
      case 2
      then show ?thesis using "1.IH" [OF True refl refl refl] by simp
    qed
  next
    case False
    with "1.prems" show ?thesis by (subst (asm) file_chunks.simps) simp
  qed
qed










lemma file_chunks_two:
  assumes "length data = CHUNK_SIZE + 1"
  shows "file_chunks name data 2 0 0 =
           [(\<lparr>chunk_id = 0, chunk_size = 512, total_chunks = 2, type = 0,
              filename = strncpy name (FILENAME_MAX_LEN - 1) @ [NUL]\<rparr>, take CHUNK_SIZE data),
            (\<lparr>chunk_id = 1, chunk_size = 1, total_chunks = 2, type = 0,
              filename = strncpy name (FILENAME_MAX_LEN - 1) @ [NUL]\<rparr>, drop CHUNK_SIZE data)]"
  using assms
  by (simp add: file_chunks.simps [of _ _ 2 0] file_chunks.simps [of _ _ 2 1]
        file_chunks.simps [of _ _ 2 2] Let_def)


lemma total_513: "length data = CHUNK_SIZE + 1 \<Longrightarrow> send_file_total_chunks data = 2"
  by (simp add: send_file_total_chunks_def c_int_def)




lemma send_file_chunk_epoll_header:
  assumes "file_ptr st = Some f" and "files w f = Some data" and "file_pos st < length data"
  shows "outbox (snd (snd (send_file_chunk_epoll st w))) =
           outbox w @ [encode_header
                         (upload_header st (length (take CHUNK_SIZE (drop (file_pos st) data)))),
                       take CHUNK_SIZE (drop (file_pos st) data)]
         \<and> unat (chunk_size (upload_header st (length (take CHUNK_SIZE (drop (file_pos st) data)))))
             = length (take CHUNK_SIZE (drop (file_pos st) data))"
proof -
  let ?buffer = "take CHUNK_SIZE (drop (file_pos st) data)"
  have len: "length ?buffer \<le> CHUNK_SIZE" by simp
  have pos: "0 < length ?buffer" using assms(3) by simp
  have u: "unat (word_of_nat (length ?buffer) :: 32 word) = length ?buffer"
    using len by (simp add: unat_of_nat del: length_take)
  have h: "upload_header (st\<lparr>file_pos := file_pos st + length ?buffer\<rparr>) (length ?buffer)
             = upload_header st (length ?buffer)"
    by (simp add: upload_header_def)
  show ?thesis
    using assms(1,2) pos u h
    by (simp add: send_file_chunk_epoll_def Let_def send_def upload_header_def del: length_take)
qed





section \<open>C7: the filename field of the headers sent\<close>

lemma length_upload_header_name:
  "length (FileChunkHeader.filename (upload_header st n)) = FILENAME_MAX_LEN"
  by (simp add: upload_header_def length_strncpy)

text \<open>
  C7, as the code has it. A call of the client's \<^verbatim>\<open>send_file_chunk_epoll\<close> that reads bytes
  sends a header of 80 bytes and the payload; the header carries \<^verbatim>\<open>current_chunk\<close> as its
  chunk id, and its filename field is the name (cut to 63 bytes, padded with NUL) when
  \<^verbatim>\<open>current_chunk\<close> is 0 and 64 NUL bytes otherwise. Every header of the server's
  \<^verbatim>\<open>send_file\<close> loop has the name in its filename field, whatever the chunk id.
\<close>

theorem C7_client_names_first_chunk_only:
  "(file_ptr st = Some f \<and> files w f = Some data \<and> file_pos st < length data \<longrightarrow>
      (\<exists>hdr payload.
          outbox (snd (snd (send_file_chunk_epoll st w))) = outbox w @ [hdr, payload]
          \<and> length hdr = HEADER_SIZE
          \<and> chunk_id (decode_header hdr) = word_of_int (current_chunk st)
          \<and> FileChunkHeader.filename (decode_header hdr)
              = (if current_chunk st = 0
                 then strncpy (filename st) (FILENAME_MAX_LEN - 1) @ [NUL]
                 else replicate FILENAME_MAX_LEN NUL)))
   \<and> (\<forall>(h, p) \<in> set (file_chunks name data tc i pos).
         FileChunkHeader.filename h = strncpy name (FILENAME_MAX_LEN - 1) @ [NUL])"
proof (intro conjI impI ballI)
  assume a: "file_ptr st = Some f \<and> files w f = Some data \<and> file_pos st < length data"
  let ?h = "upload_header st (length (take CHUNK_SIZE (drop (file_pos st) data)))"
  from a have o: "outbox (snd (snd (send_file_chunk_epoll st w))) =
           outbox w @ [encode_header ?h, take CHUNK_SIZE (drop (file_pos st) data)]"
    using send_file_chunk_epoll_header [of st f w data] by blast
  have d: "decode_header (encode_header ?h) = ?h"
    using decode_encode [OF length_upload_header_name, of st _ "[]"] by simp
  have "length (encode_header ?h) = HEADER_SIZE"
    by (rule length_encode_header [OF length_upload_header_name])
  moreover have "chunk_id (decode_header (encode_header ?h)) = word_of_int (current_chunk st)"
    unfolding d by (simp add: upload_header_def)
  moreover have "FileChunkHeader.filename (decode_header (encode_header ?h))
              = (if current_chunk st = 0
                 then strncpy (filename st) (FILENAME_MAX_LEN - 1) @ [NUL]
                 else replicate FILENAME_MAX_LEN NUL)"
    unfolding d by (simp add: upload_header_def)
  ultimately show "\<exists>hdr payload.
          outbox (snd (snd (send_file_chunk_epoll st w))) = outbox w @ [hdr, payload]
          \<and> length hdr = HEADER_SIZE
          \<and> chunk_id (decode_header hdr) = word_of_int (current_chunk st)
          \<and> FileChunkHeader.filename (decode_header hdr)
              = (if current_chunk st = 0
                 then strncpy (filename st) (FILENAME_MAX_LEN - 1) @ [NUL]
                 else replicate FILENAME_MAX_LEN NUL)"
    using o by blast
next
  fix x assume x: "x \<in> set (file_chunks name data tc i pos)"
  obtain h p where hp: "x = (h, p)" by (cases x)
  from x show "case x of (h, p) \<Rightarrow>
      FileChunkHeader.filename h = strncpy name (FILENAME_MAX_LEN - 1) @ [NUL]"
    unfolding hp using file_chunks_headers [of h p name data tc i pos] by simp
qed

text \<open>The theorem of C7 at the second chunk of the upload of the 513 byte file \<open>a\<close>.\<close>

theorem C7_client_names_first_chunk_only_witness:
  "file_ptr uploading_second = Some ''a''
   \<and> files (disk\<lparr>files := [''a'' \<mapsto> file_513]\<rparr>) ''a'' = Some file_513
   \<and> file_pos uploading_second < length file_513
   \<and> current_chunk uploading_second = 1
   \<and> (\<exists>hdr payload.
          outbox (snd (snd (send_file_chunk_epoll uploading_second
                              (disk\<lparr>files := [''a'' \<mapsto> file_513]\<rparr>))))
             = outbox (disk\<lparr>files := [''a'' \<mapsto> file_513]\<rparr>) @ [hdr, payload]
          \<and> FileChunkHeader.filename (decode_header hdr) = replicate FILENAME_MAX_LEN NUL)"
proof -
  have n: "file_513 \<noteq> []" by (simp add: file_513_def)
  have u: "file_ptr uploading_second = Some ''a''"
    "file_pos uploading_second < length file_513" "current_chunk uploading_second = 1"
    using n by (simp_all add: uploading_second_def uploading_513_def start_file_upload_def
                  Let_def file_513_def)
  have f: "files (disk\<lparr>files := [''a'' \<mapsto> file_513]\<rparr>) ''a'' = Some file_513" by simp
  note t = C7_client_names_first_chunk_only
             [where st = uploading_second and f = "''a''"
                and w = "disk\<lparr>files := [''a'' \<mapsto> file_513]\<rparr>" and data = file_513]
  from t u(1,2) f obtain hdr payload where
    "outbox (snd (snd (send_file_chunk_epoll uploading_second
                              (disk\<lparr>files := [''a'' \<mapsto> file_513]\<rparr>))))
             = outbox (disk\<lparr>files := [''a'' \<mapsto> file_513]\<rparr>) @ [hdr, payload]"
    "FileChunkHeader.filename (decode_header hdr)
              = (if current_chunk uploading_second = 0
                 then strncpy (filename uploading_second) (FILENAME_MAX_LEN - 1) @ [NUL]
                 else replicate FILENAME_MAX_LEN NUL)"
    by blast
  then show ?thesis using u f by (simp only: simp_thms) auto
qed

lemma send_file_513:
  "outbox (send_file (disk\<lparr>files := [''a'' \<mapsto> file_513]\<rparr>) ''a'') =
     [encode_header \<lparr>chunk_id = 0, chunk_size = 512, total_chunks = 2, type = 0,
              filename = strncpy ''a'' (FILENAME_MAX_LEN - 1) @ [NUL]\<rparr> @ take CHUNK_SIZE file_513,
      encode_header \<lparr>chunk_id = 1, chunk_size = 1, total_chunks = 2, type = 0,
              filename = strncpy ''a'' (FILENAME_MAX_LEN - 1) @ [NUL]\<rparr> @ drop CHUNK_SIZE file_513]"
proof -
  have l: "length file_513 = CHUNK_SIZE + 1" by (simp add: file_513_def)
  show ?thesis
    by (simp add: send_file_def total_513 [OF l] file_chunks_two [OF l] send_def disk_def)
qed

lemma pad_63: "replicate 62 x @ [x] = replicate 63 x"
proof -
  have "replicate 63 x = replicate (62 + 1) x" by simp
  also have "\<dots> = replicate 62 x @ replicate 1 x" by (rule replicate_add)
  finally show ?thesis by simp
qed

text \<open>
  C7 as the spec states it fails on the server: \<^verbatim>\<open>send_file\<close> of the 513 byte file \<open>a\<close> sends
  two chunks, and the header of the second, with chunk id 1, has the name \<open>a\<close> in its
  filename field.
\<close>

theorem C7_server_names_every_chunk:
  "length (outbox (send_file (disk\<lparr>files := [''a'' \<mapsto> file_513]\<rparr>) ''a'')) = 2
   \<and> chunk_id (decode_header (outbox (send_file (disk\<lparr>files := [''a'' \<mapsto> file_513]\<rparr>) ''a'') ! 1))
       = 1
   \<and> FileChunkHeader.filename
       (decode_header (outbox (send_file (disk\<lparr>files := [''a'' \<mapsto> file_513]\<rparr>) ''a'') ! 1))
       = ''a'' @ replicate 63 NUL"
  by (simp add: send_file_513 decode_encode length_strncpy) (simp add: strncpy_def pad_63)

section \<open>C8: overflow of the command buffer\<close>

lemma find_newline_None: "CHR 0x0A \<notin> set buf \<Longrightarrow> find_newline buf = None"
  using set_takeWhileD [of "CHR 0x0A" "\<lambda>c. c \<noteq> NUL" buf]
  by (auto simp: find_newline_def Let_def)

lemma command_loop_no_newline:
  "CHR 0x0A \<notin> set (buffer c) \<Longrightarrow> command_loop c w = (c, w)"
  by (subst command_loop.simps) (simp add: find_newline_None)

text \<open>
  C8. For a connection in command mode and bytes that are not taken for a chunk header
  (the test of lines 250-258): when the bytes held and the bytes read are 1023 or more
  together, so that they do not fit \<^verbatim>\<open>buffer[1024]\<close>, \<^verbatim>\<open>handle_client_data\<close> sends the one line
  \<^verbatim>\<open>ERROR: Buffer overflow - connection terminated\<close> and returns -1, and the event loop
  removes the client. As long as they fit and hold no newline, the bytes read are appended
  to the buffer and nothing else happens, so bytes without a newline do accumulate.
\<close>

theorem C8_command_buffer_overflow:
  "(client_info_t.state c \<noteq> 1 \<and> \<not> hcd_detects bs \<and> length (buffer c) + length bs \<ge> 1023 \<longrightarrow>
      handle_client_data c (Data bs) w
        = Inr (- 1, c, send w ''ERROR: Buffer overflow - connection terminated\<newline>'')
      \<and> on_client_readable c (Data bs) w
        = Inr (None, remove_client c
                       (send w ''ERROR: Buffer overflow - connection terminated\<newline>''))
      \<and> outbox (remove_client c (send w ''ERROR: Buffer overflow - connection terminated\<newline>''))
        = outbox w @ [''ERROR: Buffer overflow - connection terminated\<newline>'']
      \<and> take 6 ''ERROR: Buffer overflow - connection terminated\<newline>'' = ''ERROR:'')
   \<and> (client_info_t.state c \<noteq> 1 \<and> \<not> hcd_detects bs \<and> length (buffer c) + length bs < 1023
        \<and> CHR 0x0A \<notin> set (buffer c @ bs) \<longrightarrow>
      handle_client_data c (Data bs) w = Inr (0, c\<lparr>buffer := buffer c @ bs\<rparr>, w))"
proof (intro conjI impI)
  assume a: "client_info_t.state c \<noteq> 1 \<and> \<not> hcd_detects bs
               \<and> length (buffer c) + length bs \<ge> 1023"
  then show r: "handle_client_data c (Data bs) w
        = Inr (- 1, c, send w ''ERROR: Buffer overflow - connection terminated\<newline>'')"
    by (simp add: handle_client_data_def hcd_text_def)
  then show "on_client_readable c (Data bs) w
        = Inr (None, remove_client c
                       (send w ''ERROR: Buffer overflow - connection terminated\<newline>''))"
    by (simp add: on_client_readable_def)
  show "outbox (remove_client c (send w ''ERROR: Buffer overflow - connection terminated\<newline>''))
        = outbox w @ [''ERROR: Buffer overflow - connection terminated\<newline>'']"
    by (simp add: remove_client_def send_def fclose_def fflush_def write_out_def Let_def
          split: option.splits)
  show "take 6 ''ERROR: Buffer overflow - connection terminated\<newline>'' = ''ERROR:''"
    by simp
next
  assume a: "client_info_t.state c \<noteq> 1 \<and> \<not> hcd_detects bs
               \<and> length (buffer c) + length bs < 1023 \<and> CHR 0x0A \<notin> set (buffer c @ bs)"
  then have "command_loop (c\<lparr>buffer := buffer c @ bs\<rparr>) w = (c\<lparr>buffer := buffer c @ bs\<rparr>, w)"
    by (intro command_loop_no_newline) simp
  with a show "handle_client_data c (Data bs) w = Inr (0, c\<lparr>buffer := buffer c @ bs\<rparr>, w)"
    by (simp add: handle_client_data_def hcd_text_def)
qed

text \<open>
  The theorem of C8 at a buffer of 1000 bytes that receives 23 more, and at an empty buffer
  that receives two bytes.
\<close>

theorem C8_command_buffer_overflow_witness:
  "client_info_t.state nearly_full \<noteq> 1 \<and> \<not> hcd_detects (replicate 23 (CHR ''b''))
   \<and> length (buffer nearly_full) + length (replicate 23 (CHR ''b'')) \<ge> 1023
   \<and> on_client_readable nearly_full (Data (replicate 23 (CHR ''b''))) disk
       = Inr (None, disk\<lparr>outbox := [''ERROR: Buffer overflow - connection terminated\<newline>'']\<rparr>)
   \<and> client_info_t.state (add_client 5) \<noteq> 1 \<and> \<not> hcd_detects ''pw''
   \<and> length (buffer (add_client 5)) + length ''pw'' < 1023
   \<and> CHR 0x0A \<notin> set (buffer (add_client 5) @ ''pw'')
   \<and> handle_client_data (add_client 5) (Data ''pw'') disk
       = Inr (0, (add_client 5)\<lparr>buffer := ''pw''\<rparr>, disk)"
proof -
  have h1: "client_info_t.state nearly_full \<noteq> 1 \<and> \<not> hcd_detects (replicate 23 (CHR ''b''))
      \<and> length (buffer nearly_full) + length (replicate 23 (CHR ''b'')) \<ge> 1023"
    by (simp add: nearly_full_def add_client_def hcd_detects_def)
  have h2: "client_info_t.state (add_client 5) \<noteq> 1 \<and> \<not> hcd_detects ''pw''
      \<and> length (buffer (add_client 5)) + length ''pw'' < 1023
      \<and> CHR 0x0A \<notin> set (buffer (add_client 5) @ ''pw'')"
    by (simp add: add_client_def hcd_detects_def)
  note t1 = C8_command_buffer_overflow [of nearly_full "replicate 23 (CHR ''b'')" disk]
  note t2 = C8_command_buffer_overflow [of "add_client 5" "''pw''" disk]
  from t1 h1 have "on_client_readable nearly_full (Data (replicate 23 (CHR ''b''))) disk
        = Inr (None, remove_client nearly_full
                       (send disk ''ERROR: Buffer overflow - connection terminated\<newline>''))"
    by blast
  then have r1: "on_client_readable nearly_full (Data (replicate 23 (CHR ''b''))) disk
       = Inr (None, disk\<lparr>outbox := [''ERROR: Buffer overflow - connection terminated\<newline>'']\<rparr>)"
    by (simp add: remove_client_def nearly_full_def add_client_def send_def disk_def)
  from t2 h2 have "handle_client_data (add_client 5) (Data ''pw'') disk
       = Inr (0, (add_client 5)\<lparr>buffer := buffer (add_client 5) @ ''pw''\<rparr>, disk)"
    by blast
  then have r2: "handle_client_data (add_client 5) (Data ''pw'') disk
       = Inr (0, (add_client 5)\<lparr>buffer := ''pw''\<rparr>, disk)"
    by (simp add: add_client_def)
  from h1 h2 r1 r2 show ?thesis by blast
qed


section \<open>C9: a stalled download\<close>

lemma on_timeout_below:
  assumes "state (transfer_state l) = STATE_RECEIVING"
    and "no_data_iterations l + 1 < (if total_chunks (transfer_state l) > 100000 then 10 else 5)"
  shows "on_timeout l w = (l\<lparr>no_data_iterations := no_data_iterations l + 1\<rparr>, w)"
  using assms by (simp add: on_timeout_def Let_def split: if_splits)

lemma on_timeout_reached:
  assumes "state (transfer_state l) = STATE_RECEIVING"
    and "no_data_iterations l + 1 \<ge> (if total_chunks (transfer_state l) > 100000 then 10 else 5)"
  shows "on_timeout l w =
           (l\<lparr>no_data_iterations := no_data_iterations l + 1,
              transfer_state := init_transfer_state\<rparr>,
            (case file_ptr (transfer_state l) of Some f \<Rightarrow> fclose w f | None \<Rightarrow> w))"
  using assms by (simp add: on_timeout_def Let_def split: if_splits)

lemma timeouts_below:
  assumes "state (transfer_state l) = STATE_RECEIVING"
    and "no_data_iterations l + int n
           < (if total_chunks (transfer_state l) > 100000 then 10 else 5)"
  shows "timeouts n l w = (l\<lparr>no_data_iterations := no_data_iterations l + int n\<rparr>, w)"
  using assms
proof (induction n arbitrary: l)
  case 0
  then show ?case by simp
next
  case (Suc n)
  let ?l1 = "l\<lparr>no_data_iterations := no_data_iterations l + 1\<rparr>"
  have "on_timeout l w = (?l1, w)"
    using Suc.prems by (intro on_timeout_below) (simp_all split: if_splits)
  moreover have "timeouts n ?l1 w = (?l1\<lparr>no_data_iterations := no_data_iterations ?l1 + int n\<rparr>, w)"
    using Suc.prems by (intro Suc.IH) (simp_all split: if_splits)
  ultimately show ?case by (simp add: add.assoc)
qed

lemma timeouts_reached:
  assumes "state (transfer_state l) = STATE_RECEIVING"
    and "no_data_iterations l + int (Suc n)
           = (if total_chunks (transfer_state l) > 100000 then 10 else 5)"
  shows "timeouts (Suc n) l w =
           (l\<lparr>no_data_iterations := no_data_iterations l + int (Suc n),
              transfer_state := init_transfer_state\<rparr>,
            (case file_ptr (transfer_state l) of Some f \<Rightarrow> fclose w f | None \<Rightarrow> w))"
  using assms
proof (induction n arbitrary: l)
  case 0
  have "on_timeout l w =
           (l\<lparr>no_data_iterations := no_data_iterations l + 1,
              transfer_state := init_transfer_state\<rparr>,
            (case file_ptr (transfer_state l) of Some f \<Rightarrow> fclose w f | None \<Rightarrow> w))"
    using "0.prems" by (intro on_timeout_reached) (simp_all split: if_splits)
  then show ?case by simp
next
  case (Suc n)
  let ?l1 = "l\<lparr>no_data_iterations := no_data_iterations l + 1\<rparr>"
  have o: "on_timeout l w = (?l1, w)"
    using Suc.prems by (intro on_timeout_below) (simp_all split: if_splits)
  have "timeouts (Suc n) ?l1 w =
           (?l1\<lparr>no_data_iterations := no_data_iterations ?l1 + int (Suc n),
              transfer_state := init_transfer_state\<rparr>,
            (case file_ptr (transfer_state ?l1) of Some f \<Rightarrow> fclose w f | None \<Rightarrow> w))"
    using Suc.prems by (intro Suc.IH) (simp_all split: if_splits)
  then have "timeouts (Suc n) ?l1 w =
           (l\<lparr>no_data_iterations := no_data_iterations l + int (Suc (Suc n)),
              transfer_state := init_transfer_state\<rparr>,
            (case file_ptr (transfer_state l) of Some f \<Rightarrow> fclose w f | None \<Rightarrow> w))"
    by (simp add: add.assoc)
  then show ?case
    by (subst timeouts.simps(2)) (simp only: o prod.case)
qed

lemma on_socket_readable_keeps_count:
  "on_socket_readable l r w = Inr (l1, w1) \<Longrightarrow> no_data_iterations l1 = no_data_iterations l"
  by (auto simp: on_socket_readable_def after_receive_def server_text_def Let_def
           split: recv_result.splits if_splits sum.splits prod.splits)

text \<open>
  C9. While the client is in receiving state the wait of the event loop has a timeout of
  10000 ms, and none (-1) otherwise. Every event on the socket sets the count of timeouts
  back to 0. From a receiving client with the count at 0, \<open>k\<close> waits in a row that time out
  (\<open>k\<close> is 10 when more than 100000 chunks are expected and 5 otherwise) end the download: up
  to \<open>k - 1\<close> of them only raise the count, and the \<open>k\<close>-th closes the file, if one is open,
  and resets the transfer state, which is command state with no file.
\<close>

theorem C9_stalled_download_times_out:
  "(state (transfer_state l) = STATE_RECEIVING \<longrightarrow> epoll_timeout l = 10000)
   \<and> (state (transfer_state l) \<noteq> STATE_RECEIVING \<longrightarrow> epoll_timeout l = - 1)
   \<and> (on_socket_event l r w = Inr (l1, w1) \<longrightarrow> no_data_iterations l1 = 0)
   \<and> (state (transfer_state l) = STATE_RECEIVING \<and> no_data_iterations l = 0
        \<and> k = (if total_chunks (transfer_state l) > 100000 then 10 else 5) \<longrightarrow>
       (\<forall>n < k. timeouts n l w = (l\<lparr>no_data_iterations := int n\<rparr>, w))
       \<and> timeouts k l w =
           (l\<lparr>no_data_iterations := int k, transfer_state := init_transfer_state\<rparr>,
            (case file_ptr (transfer_state l) of Some f \<Rightarrow> fclose w f | None \<Rightarrow> w))
       \<and> state init_transfer_state = STATE_COMMAND \<and> file_ptr init_transfer_state = None)"
proof (intro conjI impI allI)
  assume "state (transfer_state l) = STATE_RECEIVING"
  then show "epoll_timeout l = 10000" by (simp add: epoll_timeout_def)
next
  assume "state (transfer_state l) \<noteq> STATE_RECEIVING"
  then show "epoll_timeout l = - 1" by (simp add: epoll_timeout_def)
next
  assume "on_socket_event l r w = Inr (l1, w1)"
  then show "no_data_iterations l1 = 0"
    unfolding on_socket_event_def using on_socket_readable_keeps_count by fastforce
next
  fix n
  assume a: "state (transfer_state l) = STATE_RECEIVING \<and> no_data_iterations l = 0
        \<and> k = (if total_chunks (transfer_state l) > 100000 then 10 else 5)"
    and n: "n < k"
  then show "timeouts n l w = (l\<lparr>no_data_iterations := int n\<rparr>, w)"
    using timeouts_below [of l n w] by (simp split: if_splits)
next
  assume a: "state (transfer_state l) = STATE_RECEIVING \<and> no_data_iterations l = 0
        \<and> k = (if total_chunks (transfer_state l) > 100000 then 10 else 5)"
  then obtain m where k: "k = Suc m" by (cases k) (simp_all split: if_splits)
  from a show "timeouts k l w =
           (l\<lparr>no_data_iterations := int k, transfer_state := init_transfer_state\<rparr>,
            (case file_ptr (transfer_state l) of Some f \<Rightarrow> fclose w f | None \<Rightarrow> w))"
    unfolding k using timeouts_reached [of l m w] k by (simp split: if_splits)
next
  show "state init_transfer_state = STATE_COMMAND" by (simp add: init_transfer_state_def)
  show "file_ptr init_transfer_state = None" by (simp add: init_transfer_state_def)
qed

text \<open>
  The theorem of C9 at the client that is receiving the third of five chunks into the
  file \<open>a\<close>.
\<close>

theorem C9_stalled_download_times_out_witness:
  "state (transfer_state receiving_third) = STATE_RECEIVING
   \<and> epoll_timeout receiving_third = 10000
   \<and> no_data_iterations receiving_third = 0
   \<and> (5::nat) = (if total_chunks (transfer_state receiving_third) > 100000 then 10 else 5)
   \<and> timeouts 4 receiving_third disk = (receiving_third\<lparr>no_data_iterations := 4\<rparr>, disk)
   \<and> timeouts 5 receiving_third disk =
        (receiving_third\<lparr>no_data_iterations := 5, transfer_state := init_transfer_state\<rparr>,
         fclose disk ''a'')
   \<and> epoll_timeout (fst (timeouts 5 receiving_third disk)) = - 1"
proof -
  have h: "state (transfer_state receiving_third) = STATE_RECEIVING"
    "no_data_iterations receiving_third = 0"
    "(5::nat) = (if total_chunks (transfer_state receiving_third) > 100000 then 10 else 5)"
    "file_ptr (transfer_state receiving_third) = Some ''a''"
    by (simp_all add: receiving_third_def idle_client_def init_transfer_state_def)
  note t = C9_stalled_download_times_out [where l = receiving_third and k = 5 and w = disk]
  from t h(1) have e: "epoll_timeout receiving_third = 10000" by blast
  from t h(1,2,3) have a: "\<forall>n < 5. timeouts n receiving_third disk
                            = (receiving_third\<lparr>no_data_iterations := int n\<rparr>, disk)"
    by blast
  have "(4::nat) < 5" by simp
  with a have "timeouts 4 receiving_third disk
                 = (receiving_third\<lparr>no_data_iterations := int 4\<rparr>, disk)"
    by blast
  then have b: "timeouts 4 receiving_third disk
                  = (receiving_third\<lparr>no_data_iterations := 4\<rparr>, disk)"
    by simp
  from t h(1,2,3) have c: "timeouts 5 receiving_third disk =
        (receiving_third\<lparr>no_data_iterations := int 5, transfer_state := init_transfer_state\<rparr>,
         (case file_ptr (transfer_state receiving_third) of
            Some f \<Rightarrow> fclose disk f | None \<Rightarrow> disk))"
    by blast
  then have c': "timeouts 5 receiving_third disk =
        (receiving_third\<lparr>no_data_iterations := 5, transfer_state := init_transfer_state\<rparr>,
         fclose disk ''a'')"
    using h(4) by simp
  have d: "epoll_timeout (fst (timeouts 5 receiving_third disk)) = - 1"
    unfolding c' by (simp add: epoll_timeout_def init_transfer_state_def)
  from h e b c' d show ?thesis by blast
qed


section \<open>C10: the path of an uploaded file\<close>

lemma hft_opens_path:
  assumes "\<not> header_complete c" and "client_info_t.recv_buffer c = []"
    and "HEADER_SIZE \<le> length bs"
    and "chunk_id (decode_header (take HEADER_SIZE bs)) = 0"
    and "0 < chunk_size (decode_header (take HEADER_SIZE bs))"
    and "chunk_size (decode_header (take HEADER_SIZE bs)) \<le> 8192"
    and "0 < FileChunkHeader.total_chunks (decode_header (take HEADER_SIZE bs))"
    and "FileChunkHeader.total_chunks (decode_header (take HEADER_SIZE bs)) \<le> 2000000"
    and "c_str (FileChunkHeader.filename (decode_header (take HEADER_SIZE bs))) = Some name"
    and "can_open w (''saved/'' @ name)"
  shows "\<exists>c1. hft_step c bs w =
            Continue c1 (drop HEADER_SIZE bs)
              (w\<lparr>files := (files w)(''saved/'' @ name \<mapsto> []),
                 open_files := (''saved/'' @ name) # open_files w\<rparr>)
          \<and> upload_file c1 = Some (''saved/'' @ name)"
proof -
  have "hft_step c bs w
          = hft_header_complete (c\<lparr>client_info_t.recv_buffer := take HEADER_SIZE bs\<rparr>)
              (drop HEADER_SIZE bs) w"
    unfolding hft_step_def using recv_step_header [of c bs] assms(1,2,3) by simp
  then show ?thesis
    using assms(4-10)
    by (simp add: hft_header_complete_def Let_def fopen_wb_def word_gt_0 leD)
qed

lemma hcd_opens_path:
  assumes "\<not> header_complete c" and "client_info_t.recv_buffer c = []"
    and "HEADER_SIZE \<le> length bs"
    and "chunk_id (decode_header (take HEADER_SIZE bs)) = 0"
    and "c_str (FileChunkHeader.filename (decode_header (take HEADER_SIZE bs))) = Some name"
    and "can_open w (''saved/'' @ name)"
  shows "\<exists>c1. hcd_step c bs w =
            Continue c1 (drop HEADER_SIZE bs)
              (w\<lparr>files := (files w)(''saved/'' @ name \<mapsto> []),
                 open_files := (''saved/'' @ name) # open_files w\<rparr>)
          \<and> upload_file c1 = Some (''saved/'' @ name)"
proof -
  have "hcd_step c bs w
          = hcd_header_complete (c\<lparr>client_info_t.recv_buffer := take HEADER_SIZE bs\<rparr>)
              (drop HEADER_SIZE bs) w"
    unfolding hcd_step_def using recv_step_header [of c bs] assms(1,2,3) by simp
  then show ?thesis
    using assms(4-6)
    by (simp add: hcd_header_complete_def Let_def fopen_wb_def)
qed

lemma rf_opens_path:
  assumes "sint (chunk_id header) = 0"
    and "can_open w (''saved/'' @ takeWhile (\<lambda>c. c \<noteq> NUL)
                                    (take (FILENAME_MAX_LEN - 1) (FileChunkHeader.filename header)))"
  shows "rf_open header fp w =
           (Some (''saved/'' @ takeWhile (\<lambda>c. c \<noteq> NUL)
                                 (take (FILENAME_MAX_LEN - 1) (FileChunkHeader.filename header))),
            w\<lparr>files := (files w)(''saved/'' @ takeWhile (\<lambda>c. c \<noteq> NUL)
                                 (take (FILENAME_MAX_LEN - 1) (FileChunkHeader.filename header)) \<mapsto> []),
              open_files := (''saved/'' @ takeWhile (\<lambda>c. c \<noteq> NUL)
                                 (take (FILENAME_MAX_LEN - 1) (FileChunkHeader.filename header)))
                            # open_files w\<rparr>)"
  using assms by (simp add: rf_open_def fopen_wb_def)

lemma traversal_run:
  "(case handle_file_transfer ((add_client 5)\<lparr>client_info_t.state := 1\<rparr>) (Data traversal) disk of
      Inr (ret, c, w) \<Rightarrow> ret = 0 \<and> files w ''saved/../evil'' = Some ''x''
          \<and> outbox w = [''SUCCESS: File uploaded\<newline>'']
    | Inl _ \<Rightarrow> False)"
  by (simp add: traversal_def server_run)

lemma resolved_traversal: "resolved ''saved/../evil'' = [''evil'']"
  by (simp add: resolved_def)

text \<open>
  C10. When the header of a first chunk (chunk id 0) is accepted, the file that is opened
  for writing has the path \<^verbatim>\<open>saved/\<close> followed by the filename field read as a C string, byte
  for byte: in \<^verbatim>\<open>handle_file_transfer\<close> (for a header with valid sizes), in the loop inside
  \<^verbatim>\<open>handle_client_data\<close>, and in \<^verbatim>\<open>receive_file\<close> (which reads at most 63 bytes of the field).
  Nothing is removed from the name. A name with a separator and a \<^verbatim>\<open>..\<close> component escapes:
  the upload of one chunk named \<^verbatim>\<open>../evil\<close> succeeds and writes the file \<^verbatim>\<open>saved/../evil\<close>, which
  is the file \<^verbatim>\<open>evil\<close> of the working directory, outside \<^verbatim>\<open>saved\<close>.
\<close>

theorem C10_upload_path_is_unsanitised:
  "(\<not> header_complete c \<and> client_info_t.recv_buffer c = [] \<and> HEADER_SIZE \<le> length bs
      \<and> chunk_id (decode_header (take HEADER_SIZE bs)) = 0
      \<and> 0 < chunk_size (decode_header (take HEADER_SIZE bs))
      \<and> chunk_size (decode_header (take HEADER_SIZE bs)) \<le> 8192
      \<and> 0 < FileChunkHeader.total_chunks (decode_header (take HEADER_SIZE bs))
      \<and> FileChunkHeader.total_chunks (decode_header (take HEADER_SIZE bs)) \<le> 2000000
      \<and> c_str (FileChunkHeader.filename (decode_header (take HEADER_SIZE bs))) = Some name
      \<and> can_open w (''saved/'' @ name)
    \<longrightarrow> (\<exists>c1. hft_step c bs w =
                 Continue c1 (drop HEADER_SIZE bs)
                   (w\<lparr>files := (files w)(''saved/'' @ name \<mapsto> []),
                      open_files := (''saved/'' @ name) # open_files w\<rparr>)
               \<and> upload_file c1 = Some (''saved/'' @ name)))
   \<and> (\<not> header_complete c \<and> client_info_t.recv_buffer c = [] \<and> HEADER_SIZE \<le> length bs
      \<and> chunk_id (decode_header (take HEADER_SIZE bs)) = 0
      \<and> c_str (FileChunkHeader.filename (decode_header (take HEADER_SIZE bs))) = Some name
      \<and> can_open w (''saved/'' @ name)
    \<longrightarrow> (\<exists>c1. hcd_step c bs w =
                 Continue c1 (drop HEADER_SIZE bs)
                   (w\<lparr>files := (files w)(''saved/'' @ name \<mapsto> []),
                      open_files := (''saved/'' @ name) # open_files w\<rparr>)
               \<and> upload_file c1 = Some (''saved/'' @ name)))
   \<and> (sint (chunk_id header) = 0
      \<and> name = takeWhile (\<lambda>c. c \<noteq> NUL)
                  (take (FILENAME_MAX_LEN - 1) (FileChunkHeader.filename header))
      \<and> can_open w (''saved/'' @ name)
    \<longrightarrow> rf_open header fp w =
          (Some (''saved/'' @ name),
           w\<lparr>files := (files w)(''saved/'' @ name \<mapsto> []),
             open_files := (''saved/'' @ name) # open_files w\<rparr>))
   \<and> (case handle_file_transfer ((add_client 5)\<lparr>client_info_t.state := 1\<rparr>)
              (Data traversal) disk of
         Inr (ret, c1, w1) \<Rightarrow> ret = 0 \<and> files w1 ''saved/../evil'' = Some ''x''
             \<and> outbox w1 = [''SUCCESS: File uploaded\<newline>'']
       | Inl _ \<Rightarrow> False)
   \<and> resolved ''saved/../evil'' = [''evil'']"
proof (intro conjI impI)
  assume "\<not> header_complete c \<and> client_info_t.recv_buffer c = [] \<and> HEADER_SIZE \<le> length bs
      \<and> chunk_id (decode_header (take HEADER_SIZE bs)) = 0
      \<and> 0 < chunk_size (decode_header (take HEADER_SIZE bs))
      \<and> chunk_size (decode_header (take HEADER_SIZE bs)) \<le> 8192
      \<and> 0 < FileChunkHeader.total_chunks (decode_header (take HEADER_SIZE bs))
      \<and> FileChunkHeader.total_chunks (decode_header (take HEADER_SIZE bs)) \<le> 2000000
      \<and> c_str (FileChunkHeader.filename (decode_header (take HEADER_SIZE bs))) = Some name
      \<and> can_open w (''saved/'' @ name)"
  then show "\<exists>c1. hft_step c bs w =
                 Continue c1 (drop HEADER_SIZE bs)
                   (w\<lparr>files := (files w)(''saved/'' @ name \<mapsto> []),
                      open_files := (''saved/'' @ name) # open_files w\<rparr>)
               \<and> upload_file c1 = Some (''saved/'' @ name)"
    by (intro hft_opens_path) simp_all
next
  assume "\<not> header_complete c \<and> client_info_t.recv_buffer c = [] \<and> HEADER_SIZE \<le> length bs
      \<and> chunk_id (decode_header (take HEADER_SIZE bs)) = 0
      \<and> c_str (FileChunkHeader.filename (decode_header (take HEADER_SIZE bs))) = Some name
      \<and> can_open w (''saved/'' @ name)"
  then show "\<exists>c1. hcd_step c bs w =
                 Continue c1 (drop HEADER_SIZE bs)
                   (w\<lparr>files := (files w)(''saved/'' @ name \<mapsto> []),
                      open_files := (''saved/'' @ name) # open_files w\<rparr>)
               \<and> upload_file c1 = Some (''saved/'' @ name)"
    by (intro hcd_opens_path) simp_all
next
  assume "sint (chunk_id header) = 0
      \<and> name = takeWhile (\<lambda>c. c \<noteq> NUL)
                  (take (FILENAME_MAX_LEN - 1) (FileChunkHeader.filename header))
      \<and> can_open w (''saved/'' @ name)"
  then have a: "sint (chunk_id header) = 0"
    and b: "name = takeWhile (\<lambda>c. c \<noteq> NUL)
                  (take (FILENAME_MAX_LEN - 1) (FileChunkHeader.filename header))"
    and c: "can_open w (''saved/'' @ name)"
    by blast+
  show "rf_open header fp w =
          (Some (''saved/'' @ name),
           w\<lparr>files := (files w)(''saved/'' @ name \<mapsto> []),
             open_files := (''saved/'' @ name) # open_files w\<rparr>)"
    using c unfolding b by (rule rf_opens_path [OF a])
next
  show "case handle_file_transfer ((add_client 5)\<lparr>client_info_t.state := 1\<rparr>)
              (Data traversal) disk of
         Inr (ret, c1, w1) \<Rightarrow> ret = 0 \<and> files w1 ''saved/../evil'' = Some ''x''
             \<and> outbox w1 = [''SUCCESS: File uploaded\<newline>'']
       | Inl _ \<Rightarrow> False"
    by (rule traversal_run)
  show "resolved ''saved/../evil'' = [''evil'']"
    by (rule resolved_traversal)
qed

text \<open>The theorem of C10 at the first chunk named \<^verbatim>\<open>../evil\<close>, for a new connection.\<close>

theorem C10_upload_path_is_unsanitised_witness:
  "\<not> header_complete (add_client 5) \<and> client_info_t.recv_buffer (add_client 5) = []
   \<and> HEADER_SIZE \<le> length traversal
   \<and> chunk_id (decode_header (take HEADER_SIZE traversal)) = 0
   \<and> chunk_size (decode_header (take HEADER_SIZE traversal)) = 1
   \<and> FileChunkHeader.total_chunks (decode_header (take HEADER_SIZE traversal)) = 1
   \<and> c_str (FileChunkHeader.filename (decode_header (take HEADER_SIZE traversal)))
       = Some ''../evil''
   \<and> can_open disk (''saved/'' @ ''../evil'')
   \<and> (\<exists>c1. hft_step (add_client 5) traversal disk =
              Continue c1 ''x''
                (disk\<lparr>files := (files disk)(''saved/../evil'' \<mapsto> []),
                      open_files := [''saved/../evil'']\<rparr>)
            \<and> upload_file c1 = Some ''saved/../evil'')
   \<and> (\<exists>c1. hcd_step (add_client 5) traversal disk =
              Continue c1 ''x''
                (disk\<lparr>files := (files disk)(''saved/../evil'' \<mapsto> []),
                      open_files := [''saved/../evil'']\<rparr>)
            \<and> upload_file c1 = Some ''saved/../evil'')
   \<and> sint (chunk_id (decode_header (take HEADER_SIZE traversal))) = 0
   \<and> fst (rf_open (decode_header (take HEADER_SIZE traversal)) None disk)
       = Some ''saved/../evil''"
proof -
  have t: "take HEADER_SIZE traversal = wire_header 0 1 1 ''../evil''"
    "drop HEADER_SIZE traversal = ''x''" "HEADER_SIZE \<le> length traversal"
    by (simp_all add: traversal_def length_wire_header)
  have d: "decode_header (wire_header 0 1 1 ''../evil'') =
             \<lparr>chunk_id = 0, chunk_size = 1, total_chunks = 1, type = 0,
              filename = ''../evil'' @ replicate 57 NUL\<rparr>"
    by (simp add: decode_wire_header strncpy_def)
  have h: "\<not> header_complete (add_client 5)" "client_info_t.recv_buffer (add_client 5) = []"
    "chunk_id (decode_header (take HEADER_SIZE traversal)) = 0"
    "chunk_size (decode_header (take HEADER_SIZE traversal)) = 1"
    "FileChunkHeader.total_chunks (decode_header (take HEADER_SIZE traversal)) = 1"
    "c_str (FileChunkHeader.filename (decode_header (take HEADER_SIZE traversal)))
       = Some ''../evil''"
    "can_open disk (''saved/'' @ ''../evil'')"
    "sint (chunk_id (decode_header (take HEADER_SIZE traversal))) = 0"
    "''../evil'' = takeWhile (\<lambda>c. c \<noteq> NUL)
                  (take (FILENAME_MAX_LEN - 1)
                     (FileChunkHeader.filename (decode_header (take HEADER_SIZE traversal))))"
    unfolding t d by (simp_all add: add_client_def c_str_def disk_def)
  have o: "open_files disk = []" by (simp add: disk_def)
  note inst = C10_upload_path_is_unsanitised
               [where c = "add_client 5" and bs = traversal and w = disk
                  and name = "''../evil''"
                  and header = "decode_header (take HEADER_SIZE traversal)" and fp = None]
  have s: "0 < chunk_size (decode_header (take HEADER_SIZE traversal))"
    "chunk_size (decode_header (take HEADER_SIZE traversal)) \<le> 8192"
    "0 < FileChunkHeader.total_chunks (decode_header (take HEADER_SIZE traversal))"
    "FileChunkHeader.total_chunks (decode_header (take HEADER_SIZE traversal)) \<le> 2000000"
    unfolding h(4,5) by simp_all
  from inst h t(3) s have
    "\<exists>c1. hft_step (add_client 5) traversal disk =
              Continue c1 (drop HEADER_SIZE traversal)
                (disk\<lparr>files := (files disk)(''saved/'' @ ''../evil'' \<mapsto> []),
                      open_files := (''saved/'' @ ''../evil'') # open_files disk\<rparr>)
            \<and> upload_file c1 = Some (''saved/'' @ ''../evil'')"
    by blast
  then have r1: "\<exists>c1. hft_step (add_client 5) traversal disk =
              Continue c1 ''x''
                (disk\<lparr>files := (files disk)(''saved/../evil'' \<mapsto> []),
                      open_files := [''saved/../evil'']\<rparr>)
            \<and> upload_file c1 = Some ''saved/../evil''"
    unfolding t(2) o by simp
  from inst h t(3) have
    "\<exists>c1. hcd_step (add_client 5) traversal disk =
              Continue c1 (drop HEADER_SIZE traversal)
                (disk\<lparr>files := (files disk)(''saved/'' @ ''../evil'' \<mapsto> []),
                      open_files := (''saved/'' @ ''../evil'') # open_files disk\<rparr>)
            \<and> upload_file c1 = Some (''saved/'' @ ''../evil'')"
    by blast
  then have r2: "\<exists>c1. hcd_step (add_client 5) traversal disk =
              Continue c1 ''x''
                (disk\<lparr>files := (files disk)(''saved/../evil'' \<mapsto> []),
                      open_files := [''saved/../evil'']\<rparr>)
            \<and> upload_file c1 = Some ''saved/../evil''"
    unfolding t(2) o by simp
  from inst h(7,8,9) have
    "rf_open (decode_header (take HEADER_SIZE traversal)) None disk =
          (Some (''saved/'' @ ''../evil''),
           disk\<lparr>files := (files disk)(''saved/'' @ ''../evil'' \<mapsto> []),
             open_files := (''saved/'' @ ''../evil'') # open_files disk\<rparr>)"
    by blast
  then have r3: "fst (rf_open (decode_header (take HEADER_SIZE traversal)) None disk)
                   = Some ''saved/../evil''"
    by simp
  from h(1-8) t(3) r1 r2 r3 show ?thesis by blast
qed

end
